theory Spec2Isabelle
  imports Complex_Main "HOL-Library.Multiset" "HOL-Library.Monad_Syntax"
begin

section \<open>Values\<close>

subsection \<open>Python floats\<close>

text \<open>
  A Python \<open>float\<close> is an IEEE-754 double. A finite double is kept as sign, integer
  significand and binary exponent: \<open>Finite s m e\<close> stands for \<open>(-1)^s * m * 2^e\<close>, in
  the unique form with \<open>2^52 \<le> m < 2^53\<close> and \<open>-1074 \<le> e \<le> 971\<close> (normal numbers) or
  \<open>m < 2^52\<close> and \<open>e = -1074\<close> (zeros and subnormal numbers).
\<close>

datatype pyfloat = Finite bool nat int | Infinite bool | NaN

definition is_double :: "pyfloat \<Rightarrow> bool" where
  "is_double x =
     (case x of
        Finite s m e \<Rightarrow>
          (2 ^ 52 \<le> m \<and> m < 2 ^ 53 \<and> - 1074 \<le> e \<and> e \<le> 971) \<or> (m < 2 ^ 52 \<and> e = - 1074)
      | _ \<Rightarrow> True)"

definition fval :: "pyfloat \<Rightarrow> real" where
  "fval x =
     (case x of
        Finite s m e \<Rightarrow> (if s then - 1 else 1) * real m * 2 powr (real_of_int e)
      | _ \<Rightarrow> 0)"

text \<open>
  \<open>rhe n d\<close> is the integer nearest to \<open>n / d\<close>, a tie going to the even neighbour: the
  rounding of IEEE arithmetic and of CPython's decimal conversions.
\<close>

definition rhe :: "nat \<Rightarrow> nat \<Rightarrow> nat" where
  "rhe n d =
     (let q = n div d; r = n mod d
      in if 2 * r < d then q else if d < 2 * r then q + 1 else if even q then q else q + 1)"

text \<open>\<open>n / (d * 2^e)\<close>, rounded the same way.\<close>

definition rhe_scaled :: "nat \<Rightarrow> nat \<Rightarrow> int \<Rightarrow> nat" where
  "rhe_scaled n d e = (if 0 \<le> e then rhe n (d * 2 ^ nat e) else rhe (n * 2 ^ nat (- e)) d)"

fun bit_length :: "nat \<Rightarrow> nat" where
  "bit_length n = (if n = 0 then 0 else Suc (bit_length (n div 2)))"

declare bit_length.simps [simp del]

text \<open>\<open>\<lfloor>log\<^sub>2 (n / d)\<rfloor>\<close> for positive \<open>n\<close> and \<open>d\<close>.\<close>

definition floor_log2_ratio :: "nat \<Rightarrow> nat \<Rightarrow> int" where
  "floor_log2_ratio n d =
     (let t = int (bit_length n) - int (bit_length d)
      in if (if 0 \<le> t then d * 2 ^ nat t \<le> n else d \<le> n * 2 ^ nat (- t)) then t else t - 1)"

text \<open>
  The double nearest to \<open>(-1)^s * n / d\<close> (ties to even), which is what reading a decimal
  numeral gives (\<open>float('2.4')\<close>, \<open>strtod\<close>). \<open>None\<close> stands for a result beyond the
  largest double.
\<close>

definition nearest_double :: "bool \<Rightarrow> nat \<Rightarrow> nat \<Rightarrow> pyfloat option" where
  "nearest_double s n d =
     (if n = 0 then Some (Finite s 0 (- 1074))
      else
        let e = max (floor_log2_ratio n d - 52) (- 1074);
            m = rhe_scaled n d e;
            m' = (if m = 2 ^ 53 then 2 ^ 52 else m);
            e' = (if m = 2 ^ 53 then e + 1 else e)
        in if 971 < e' then None else Some (Finite s m' e'))"

text \<open>
  \<open>round(x, 1)\<close> for a float, as CPython computes it: the exact value of \<open>x\<close> is
  converted to the nearest decimal with one digit after the point (ties to even), and
  that decimal is read back as a double. \<open>tenths_of x\<close> is the decimal's numerator.
  Infinities and NaN round to themselves; \<open>None\<close> stands for \<open>OverflowError\<close>.
\<close>

definition tenths_of :: "nat \<Rightarrow> int \<Rightarrow> nat" where
  "tenths_of m e = rhe_scaled (m * 10) 1 (- e)"

definition float_round1 :: "pyfloat \<Rightarrow> pyfloat option" where
  "float_round1 x =
     (case x of
        Finite s m e \<Rightarrow> nearest_double s (tenths_of m e) 10
      | _ \<Rightarrow> Some x)"

subsection \<open>JSON values\<close>

text \<open>
  Request payloads and stored documents are what \<open>request.json\<close> and the store hand
  over: JSON trees. An object is an association list in insertion order, as a Python
  \<open>dict\<close> is.
\<close>

datatype json =
    JNull
  | JBool bool
  | JInt int
  | JFloat pyfloat
  | JStr string
  | JList "json list"
  | JObj "(string \<times> json) list"

text \<open>
  Every Python expression that can raise is modelled with an \<open>option\<close> result:
  \<open>None\<close> stands for a raised exception (\<open>KeyError\<close>, \<open>TypeError\<close>, \<open>IndexError\<close>,
  \<open>ValueError\<close>, \<open>AttributeError\<close>). The handlers of the source treat all of them alike
  (\<open>except (KeyError, Exception)\<close>), so the kind is not kept.
\<close>

text \<open>\<open>obj[key]\<close> for a string key: only a dict can be subscripted with a string.\<close>

definition getitem :: "json \<Rightarrow> string \<Rightarrow> json option" where
  "getitem obj key = (case obj of JObj kvs \<Rightarrow> map_of kvs key | _ \<Rightarrow> None)"

text \<open>
  \<open>obj[i]\<close> for a non-negative integer index: a list gives its element, a string its
  one-character substring, everything else (and an index out of range) raises.
\<close>

definition getindex :: "json \<Rightarrow> nat \<Rightarrow> json option" where
  "getindex obj i =
     (case obj of
        JList xs \<Rightarrow> (if i < length xs then Some (xs ! i) else None)
      | JStr s \<Rightarrow> (if i < length s then Some (JStr [s ! i]) else None)
      | _ \<Rightarrow> None)"

text \<open>
  \<open>obj[key] = v\<close>: an existing key keeps its position, a new key goes to the end.
\<close>

fun alist_put :: "string \<Rightarrow> json \<Rightarrow> (string \<times> json) list \<Rightarrow> (string \<times> json) list" where
  "alist_put k v [] = [(k, v)]"
| "alist_put k v (p # ps) = (if fst p = k then (k, v) # ps else p # alist_put k v ps)"

definition setitem :: "json \<Rightarrow> string \<Rightarrow> json \<Rightarrow> json option" where
  "setitem obj key v = (case obj of JObj kvs \<Rightarrow> Some (JObj (alist_put key v kvs)) | _ \<Rightarrow> None)"

text \<open>
  \<open>obj[key]\<close> is read and the object it denotes is changed in place by \<open>f\<close>: the
  model of an assignment through a path such as \<open>obj[key][k2] = v\<close>.
\<close>

definition modify_item :: "json \<Rightarrow> string \<Rightarrow> (json \<Rightarrow> json option) \<Rightarrow> json option" where
  "modify_item obj key f =
     (case getitem obj key of
        None \<Rightarrow> None
      | Some sub \<Rightarrow> (case f sub of None \<Rightarrow> None | Some sub' \<Rightarrow> setitem obj key sub'))"

fun is_prefix :: "'a list \<Rightarrow> 'a list \<Rightarrow> bool" where
  "is_prefix [] ys = True"
| "is_prefix (x # xs) [] = False"
| "is_prefix (x # xs) (y # ys) = (x = y \<and> is_prefix xs ys)"

fun is_substring :: "string \<Rightarrow> string \<Rightarrow> bool" where
  "is_substring xs [] = (xs = [])"
| "is_substring xs (y # ys) = (is_prefix xs (y # ys) \<or> is_substring xs ys)"

text \<open>
  \<open>key in obj\<close> for a string key: a key of a dict, an element of a list, a substring
  of a string; any other right operand raises \<open>TypeError\<close>.
\<close>

definition py_in :: "string \<Rightarrow> json \<Rightarrow> bool option" where
  "py_in key obj =
     (case obj of
        JObj kvs \<Rightarrow> Some (key \<in> fst ` set kvs)
      | JList xs \<Rightarrow> Some (JStr key \<in> set xs)
      | JStr s \<Rightarrow> Some (is_substring key s)
      | _ \<Rightarrow> None)"

text \<open>
  \<open>for x in obj\<close>: the elements of a list, the keys of a dict, the characters of a
  string; anything else raises \<open>TypeError\<close>.
\<close>

definition py_iter :: "json \<Rightarrow> json list option" where
  "py_iter obj =
     (case obj of
        JList xs \<Rightarrow> Some xs
      | JObj kvs \<Rightarrow> Some (map (\<lambda>p. JStr (fst p)) kvs)
      | JStr s \<Rightarrow> Some (map (\<lambda>c. JStr [c]) s)
      | _ \<Rightarrow> None)"

definition is_str :: "json \<Rightarrow> bool" where
  "is_str v = (case v of JStr _ \<Rightarrow> True | _ \<Rightarrow> False)"

definition is_list :: "json \<Rightarrow> bool" where
  "is_list v = (case v of JList _ \<Rightarrow> True | _ \<Rightarrow> False)"

text \<open>\<open>isinstance(v, int)\<close>: \<open>bool\<close> is a subclass of \<open>int\<close> in Python.\<close>

definition is_int :: "json \<Rightarrow> bool" where
  "is_int v = (case v of JInt _ \<Rightarrow> True | JBool _ \<Rightarrow> True | _ \<Rightarrow> False)"

definition is_float :: "json \<Rightarrow> bool" where
  "is_float v = (case v of JFloat _ \<Rightarrow> True | _ \<Rightarrow> False)"

definition is_dict :: "json \<Rightarrow> bool" where
  "is_dict v = (case v of JObj _ \<Rightarrow> True | _ \<Rightarrow> False)"

text \<open>
  \<open>round(v, 1)\<close>: a float is rounded to one decimal, an \<open>int\<close> is returned as it is
  (a \<open>bool\<close> as the \<open>int\<close> 0 or 1), any other JSON value has no \<open>__round__\<close>.
\<close>

definition py_round1 :: "json \<Rightarrow> json option" where
  "py_round1 v =
     (case v of
        JFloat x \<Rightarrow> map_option JFloat (float_round1 x)
      | JInt n \<Rightarrow> Some (JInt n)
      | JBool b \<Rightarrow> Some (JInt (if b then 1 else 0))
      | _ \<Rightarrow> None)"

text \<open>A path of string keys: \<open>obj[k1][k2]...\<close>.\<close>

fun get_path :: "json \<Rightarrow> string list \<Rightarrow> json option" where
  "get_path obj [] = Some obj"
| "get_path obj (k # ks) = (case getitem obj k of None \<Rightarrow> None | Some sub \<Rightarrow> get_path sub ks)"

section \<open>Service ordering\<close>

text \<open>\<open>service['type'] == 'metadata'\<close>, raising when the service has no \<open>type\<close>.\<close>

definition type_is_metadata :: "json \<Rightarrow> bool option" where
  "type_is_metadata service = map_option (\<lambda>t. t = JStr ''metadata'') (getitem service ''type'')"

text \<open>One pass of \<open>_reorder_services\<close>: append the services whose test gives \<open>want\<close>.\<close>

fun reorder_pass :: "bool \<Rightarrow> json list \<Rightarrow> json list \<Rightarrow> json list option" where
  "reorder_pass want [] result = Some result"
| "reorder_pass want (service # services) result =
     (case type_is_metadata service of
        None \<Rightarrow> None
      | Some b \<Rightarrow> reorder_pass want services (if b = want then result @ [service] else result))"

definition reorder_services :: "json list \<Rightarrow> json list option" where
  "reorder_services services =
     (case reorder_pass True services [] of
        None \<Rightarrow> None
      | Some result \<Rightarrow> reorder_pass False services result)"

definition is_metadata :: "json \<Rightarrow> bool" where
  "is_metadata service = (getitem service ''type'' = Some (JStr ''metadata''))"

definition has_type :: "json \<Rightarrow> bool" where
  "has_type service = (getitem service ''type'' \<noteq> None)"

section \<open>Collaborators\<close>

text \<open>
  The handlers call libraries and services whose code is not part of the repository's
  source: \<open>datetime\<close>, the schema validator, \<open>Web3\<close>, the configuration. They are
  collected in an environment that every handler receives.
\<close>

record datetime =
  year :: nat
  month :: nat
  day :: nat
  hour :: nat
  minute :: nat
  second :: nat

text \<open>The document store maps the identifier of a document to the document.\<close>

type_synonym store = "json \<rightharpoonup> json"

record env =
  strptime :: "string \<Rightarrow> datetime option"
    \<comment> \<open>\<open>datetime.strptime(s, DATETIME_FORMAT)\<close>; \<open>None\<close> is \<open>ValueError\<close>\<close>
  utcnow :: datetime
    \<comment> \<open>\<open>datetime.utcnow().replace(microsecond=0)\<close>\<close>
  is_valid_dict_remote :: "json \<Rightarrow> bool"
  list_errors_remote :: "json \<Rightarrow> json"
    \<comment> \<open>\<open>_list_errors(list_errors_dict_remote, attributes)\<close>\<close>
  allow_free_assets_only :: string
    \<comment> \<open>\<open>Config(...).allow_free_assets_only\<close>\<close>
  isAddress :: "string \<Rightarrow> bool"
    \<comment> \<open>\<open>Web3.isAddress\<close> on a string\<close>
  recoverSigner :: "json \<Rightarrow> json \<Rightarrow> string option"
    \<comment> \<open>signer address of a (message, signature) pair; \<open>None\<close> when recovery fails\<close>
  allowed_updaters :: "string list"
  get_all_assets :: "store \<Rightarrow> json list"
    \<comment> \<open>\<open>dao.get_all_assets()\<close>: the documents of the store, in the order of the driver\<close>

subsection \<open>Timestamps\<close>

definition digit :: "nat \<Rightarrow> char" where
  "digit n = ''0123456789'' ! (n mod 10)"

definition pad2 :: "nat \<Rightarrow> string" where
  "pad2 n = [digit (n div 10), digit n]"

definition pad4 :: "nat \<Rightarrow> string" where
  "pad4 n = [digit (n div 1000), digit (n div 100), digit (n div 10), digit n]"

text \<open>\<open>dt.isoformat()\<close> of a datetime without microseconds and time zone.\<close>

definition isoformat :: "datetime \<Rightarrow> string" where
  "isoformat dt =
     pad4 (year dt) @ ''-'' @ pad2 (month dt) @ ''-'' @ pad2 (day dt) @ ''T''
       @ pad2 (hour dt) @ '':'' @ pad2 (minute dt) @ '':'' @ pad2 (second dt)"

definition get_timestamp :: "env \<Rightarrow> json" where
  "get_timestamp env = JStr (isoformat (utcnow env) @ ''Z'')"

text \<open>\<open>format_timestamp\<close> raises when the argument is no string or does not parse.\<close>

definition format_timestamp :: "env \<Rightarrow> json \<Rightarrow> json option" where
  "format_timestamp env timestamp =
     (case timestamp of
        JStr s \<Rightarrow> map_option (\<lambda>dt. JStr (isoformat dt @ ''Z'')) (strptime env s)
      | _ \<Rightarrow> None)"

text \<open>
  The checks of the source return a pair \<open>(msg, status)\<close>, \<open>(None, None)\<close> when they
  pass: here \<open>Some (msg, status)\<close> and \<open>None\<close>.
\<close>

type_synonym check = "(string \<times> nat) option"

definition validate_date_format :: "env \<Rightarrow> json \<Rightarrow> check" where
  "validate_date_format env date =
     (case date of
        JStr s \<Rightarrow>
          (case strptime env s of
             Some _ \<Rightarrow> None
           | None \<Rightarrow>
               Some (''Incorrect data format, should be '' @ [CHR 0x27]
                       @ ''%Y-%m-%dT%H:%M:%SZ'' @ [CHR 0x27], 400))
      | _ \<Rightarrow>
          Some (''Incorrect data format, should be '' @ [CHR 0x27]
                  @ ''%Y-%m-%dT%H:%M:%SZ'' @ [CHR 0x27], 400))"

subsection \<open>Addresses and authorization\<close>

definition lower_char :: "char \<Rightarrow> char" where
  "lower_char c =
     (let n = (of_char c :: nat) in if 65 \<le> n \<and> n \<le> 90 then char_of (n + 32) else c)"

text \<open>
  Modelled from the spec: \<open>compare_eth_addresses\<close> lives in \<open>aquarius/app/util.py\<close>, which
  is not among the sources. The spec gives it as \<open>addressesEqual(a, b)\<close>, a
  case-insensitive comparison of two addresses.
\<close>

definition compare_eth_addresses :: "json \<Rightarrow> json \<Rightarrow> bool" where
  "compare_eth_addresses a b =
     (case (a, b) of
        (JStr x, JStr y) \<Rightarrow> map lower_char x = map lower_char y
      | _ \<Rightarrow> False)"

text \<open>\<open>record['publicKey'][0]['owner']\<close>\<close>

definition owner_of :: "json \<Rightarrow> json option" where
  "owner_of record =
     (case getitem record ''publicKey'' of
        None \<Rightarrow> None
      | Some keys \<Rightarrow> (case getindex keys 0 of None \<Rightarrow> None | Some k \<Rightarrow> getitem k ''owner''))"

text \<open>
  Modelled from the spec: \<open>_can_update_did\<close> lives in \<open>aquarius/app/util.py\<close>, which is not
  among the sources. The spec gives it as \<open>authorizeAsOwner(doc, newUpdated, signature)\<close>:
  the signer is recovered from \<open>(newUpdated, signature)\<close>, and the caller is authorized
  iff \<open>addressesEqual(signer, doc.publicKey[0].owner)\<close>; a pure boolean check.
\<close>

definition can_update_did :: "env \<Rightarrow> json \<Rightarrow> json \<Rightarrow> json \<Rightarrow> bool" where
  "can_update_did env record updated signature =
     (case recoverSigner env updated signature of
        None \<Rightarrow> False
      | Some signer \<Rightarrow>
          (case owner_of record of
             None \<Rightarrow> False
           | Some owner \<Rightarrow> compare_eth_addresses (JStr signer) owner))"

text \<open>
  Modelled from the spec: \<open>_can_update_did_from_allowed_updaters\<close> lives in
  \<open>aquarius/app/util.py\<close>, which is not among the sources. The spec gives it as
  \<open>authorizeAsAllowedUpdater\<close>: the signer is recovered, and the caller is authorized iff
  the signer is a member of the configured allow-list of updater addresses.
\<close>

definition can_update_did_from_allowed_updaters :: "env \<Rightarrow> json \<Rightarrow> json \<Rightarrow> json \<Rightarrow> bool" where
  "can_update_did_from_allowed_updaters env record updated signature =
     (case recoverSigner env updated signature of
        None \<Rightarrow> False
      | Some signer \<Rightarrow> list_ex (\<lambda>a. compare_eth_addresses (JStr signer) (JStr a)) (allowed_updaters env))"

text \<open>\<open>Web3.isAddress(v)\<close>: a JSON value that is no string is no address.\<close>

definition is_address :: "env \<Rightarrow> json \<Rightarrow> bool" where
  "is_address env v = (case v of JStr s \<Rightarrow> isAddress env s | _ \<Rightarrow> False)"

subsection \<open>The document store\<close>

text \<open>
  Modelled from the spec: the \<open>Dao\<close> class lives in \<open>aquarius/app/dao.py\<close>, which is not
  among the sources. The spec gives the store as \<open>get(did)\<close>, \<open>put(did, document)\<close>,
  \<open>delete(did)\<close> and \<open>listAll()\<close> over documents keyed by their identifier, each atomic on
  a single document. The compare-and-swap precondition that the spec adds to \<open>put\<close> is a
  hardening the source does not have; it is left out. As \<open>get\<close> of an identifier that
  is not stored gives a result and no exception (the handlers test it with \<open>is None\<close>),
  so does \<open>delete\<close>: it leaves the store as it is. A map has no order in which to list
  its documents, so \<open>listAll\<close> is the parameter \<open>get_all_assets\<close> of the environment.
\<close>

definition dao_get :: "store \<Rightarrow> string \<Rightarrow> json option" where
  "dao_get db did = db (JStr did)"

definition dao_register :: "store \<Rightarrow> json \<Rightarrow> json \<Rightarrow> store" where
  "dao_register db record ident = db(ident \<mapsto> record)"

definition dao_update :: "store \<Rightarrow> json \<Rightarrow> string \<Rightarrow> store" where
  "dao_update db record did = db(JStr did \<mapsto> record)"

definition dao_delete :: "store \<Rightarrow> json \<Rightarrow> store" where
  "dao_delete db ident = db(ident := None)"

section \<open>Handlers\<close>

text \<open>
  What a handler hands back: \<open>return body, status\<close>; the bare \<open>return 400\<close> of
  \<open>register\<close> and \<open>update\<close>; or an exception that leaves the handler.
\<close>

datatype body = Text string | Doc json | SomeError

datatype outcome = Return body nat | ReturnBare nat | Uncaught

text \<open>
  A handler's body is a chain of steps, each of which either ends the handler with an
  outcome (\<open>Inl\<close>) or goes on with a value (\<open>Inr\<close>).
\<close>

definition bind_out :: "outcome + 'a \<Rightarrow> ('a \<Rightarrow> outcome + 'b) \<Rightarrow> outcome + 'b" where
  "bind_out m f = (case m of Inl out \<Rightarrow> Inl out | Inr a \<Rightarrow> f a)"

text \<open>An expression outside any \<open>try\<close>: an exception leaves the handler.\<close>

definition raising :: "'a option \<Rightarrow> outcome + 'a" where
  "raising v = (case v of None \<Rightarrow> Inl Uncaught | Some a \<Rightarrow> Inr a)"

text \<open>
  An expression inside \<open>try: ... except (KeyError, Exception) as err:
  return f'Some error: {str(err)}', 500\<close>.
\<close>

definition caught :: "'a option \<Rightarrow> outcome + 'a" where
  "caught v = (case v of None \<Rightarrow> Inl (Return SomeError 500) | Some a \<Rightarrow> Inr a)"

text \<open>\<open>if msg: return msg, status\<close>\<close>

definition checked :: "check \<Rightarrow> outcome + unit" where
  "checked c = (case c of None \<Rightarrow> Inr () | Some (msg, status) \<Rightarrow> Inl (Return (Text msg) status))"

definition finish :: "store \<Rightarrow> outcome + (outcome \<times> store) \<Rightarrow> outcome \<times> store" where
  "finish db r = (case r of Inl out \<Rightarrow> (out, db) | Inr res \<Rightarrow> res)"

subsection \<open>Shared checks\<close>

fun first_missing :: "string list \<Rightarrow> (string \<times> json) list \<Rightarrow> string option" where
  "first_missing [] kvs = None"
| "first_missing (attr # attrs) kvs =
     (if attr \<in> fst ` set kvs then first_missing attrs kvs else Some attr)"

text \<open>\<open>check_required_attributes\<close> asserts that the payload is a dict.\<close>

definition check_required_attributes :: "string list \<Rightarrow> json \<Rightarrow> string \<Rightarrow> check option" where
  "check_required_attributes required_attributes data method =
     (case data of
        JObj kvs \<Rightarrow>
          (if kvs = [] then Some (Some (''payload seems empty.'', 400))
           else
             (case first_missing required_attributes kvs of
                Some attr \<Rightarrow>
                  Some (Some ([CHR 0x22] @ attr @ [CHR 0x22] @ '' is required in the call to ''
                                @ method, 400))
              | None \<Rightarrow> Some None))
      | _ \<Rightarrow> None)"

fun any_file_has_url :: "json list \<Rightarrow> bool option" where
  "any_file_has_url [] = Some False"
| "any_file_has_url (file # files) =
     (case py_in ''url'' file of
        None \<Rightarrow> None
      | Some True \<Rightarrow> Some True
      | Some False \<Rightarrow> any_file_has_url files)"

definition check_no_urls_in_files :: "json \<Rightarrow> string \<Rightarrow> check option" where
  "check_no_urls_in_files main method =
     (case py_in ''files'' main of
        None \<Rightarrow> None
      | Some False \<Rightarrow> Some None
      | Some True \<Rightarrow>
          (case Option.bind (getitem main ''files'') py_iter of
             None \<Rightarrow> None
           | Some files \<Rightarrow>
               (case any_file_has_url files of
                  None \<Rightarrow> None
                | Some True \<Rightarrow>
                    Some (Some (method @ '' request failed: url is not allowed in files '', 400))
                | Some False \<Rightarrow> Some None)))"

text \<open>\<open>_get_metadata\<close> returns (Python's) \<open>None\<close> when no service is of type metadata.\<close>

fun first_metadata :: "json list \<Rightarrow> json option" where
  "first_metadata [] = Some JNull"
| "first_metadata (service # services) =
     (case type_is_metadata service of
        None \<Rightarrow> None
      | Some True \<Rightarrow> Some service
      | Some False \<Rightarrow> first_metadata services)"

definition get_metadata :: "json \<Rightarrow> json option" where
  "get_metadata services = Option.bind (py_iter services) first_metadata"

definition get_main_metadata :: "json \<Rightarrow> json option" where
  "get_main_metadata services =
     Option.bind (get_metadata services) (\<lambda>m. get_path m [''attributes'', ''main''])"

definition sanitize_record :: "json \<Rightarrow> json" where
  "sanitize_record data_record =
     (case data_record of
        JObj kvs \<Rightarrow> JObj (filter (\<lambda>p. fst p \<noteq> ''_id'') kvs)
      | other \<Rightarrow> other)"

text \<open>\<open>obj[k1][k2]...[kn] = v\<close> along a path of string keys.\<close>

fun set_path :: "json \<Rightarrow> string list \<Rightarrow> json \<Rightarrow> json option" where
  "set_path obj [] v = None"
| "set_path obj [k] v = setitem obj k v"
| "set_path obj (k # k' # ks) v =
     (case getitem obj k of
        None \<Rightarrow> None
      | Some sub \<Rightarrow>
          (case set_path sub (k' # ks) v of None \<Rightarrow> None | Some sub' \<Rightarrow> setitem obj k sub'))"

text \<open>
  A loop \<open>for service in services\<close> whose body changes the service in place: the
  changes reach the container only when it is a list. The keys of a dict and the
  characters of a string are strings, which no body can change.
\<close>

definition rebuild :: "json \<Rightarrow> json list \<Rightarrow> json" where
  "rebuild services items = (case services of JList _ \<Rightarrow> JList items | other \<Rightarrow> other)"

subsection \<open>Create: \<open>register\<close>\<close>

definition zero_float :: pyfloat where
  "zero_float = Finite False 0 (- 1074)"

text \<open>The body of the loop over the services of a new document.\<close>

definition register_service :: "env \<Rightarrow> json \<Rightarrow> outcome + json" where
  "register_service env service =
     bind_out (raising (type_is_metadata service)) (\<lambda>is_md.
       if \<not> is_md then Inr service
       else
         bind_out
           (if allow_free_assets_only env = ''true''
            then
              bind_out (raising (get_path service [''attributes'', ''main'', ''price''])) (\<lambda>price.
                if price \<noteq> JStr ''0''
                then Inl (Return (Text ''Priced assets are not supported in this marketplace'') 400)
                else Inr ())
            else Inr ()) (\<lambda>_.
         raising (do {
           dc \<leftarrow> get_path service [''attributes'', ''main'', ''dateCreated''];
           dc' \<leftarrow> format_timestamp env dc;
           s1 \<leftarrow> set_path service [''attributes'', ''main'', ''dateCreated''] dc';
           s2 \<leftarrow> set_path s1 [''attributes'', ''main'', ''datePublished''] (get_timestamp env);
           s3 \<leftarrow> set_path s2 [''attributes'', ''curation''] (JObj []);
           s4 \<leftarrow> set_path s3 [''attributes'', ''curation'', ''rating''] (JFloat zero_float);
           s5 \<leftarrow> set_path s4 [''attributes'', ''curation'', ''numVotes''] (JInt 0);
           set_path s5 [''attributes'', ''curation'', ''isListed''] (JBool True)
         })))"

fun register_services :: "env \<Rightarrow> json list \<Rightarrow> outcome + json list" where
  "register_services env [] = Inr []"
| "register_services env (service # services) =
     bind_out (register_service env service) (\<lambda>service'.
     bind_out (register_services env services) (\<lambda>services'.
     Inr (service' # services')))"

definition ddo_required_attributes :: "string list" where
  "ddo_required_attributes =
     [''@context'', ''created'', ''id'', ''publicKey'', ''authentication'', ''proof'', ''service'']"

text \<open>The access list of a new document: the payload's, when it is a list.\<close>

definition initial_white_list :: "json \<Rightarrow> json option" where
  "initial_white_list data = do {
     present \<leftarrow> py_in ''accesssWhiteList'' data;
     if \<not> present then Some (JList [])
     else do {
       wl \<leftarrow> getitem data ''accesssWhiteList'';
       if \<not> is_list wl then Some (JList []) else Some wl
     }
   }"

definition register :: "env \<Rightarrow> json \<Rightarrow> store \<Rightarrow> outcome \<times> store" where
  "register env data db = finish db
     (if \<not> is_dict data then Inl Uncaught
      else if data = JObj [] then Inl (ReturnBare 400)
      else
        bind_out (raising (check_required_attributes ddo_required_attributes data ''register'')) (\<lambda>c.
        bind_out (checked c) (\<lambda>_.
        bind_out (raising (Option.bind (getitem data ''service'') get_main_metadata)) (\<lambda>main.
        bind_out (raising (check_no_urls_in_files main ''register'')) (\<lambda>c.
        bind_out (checked c) (\<lambda>_.
        bind_out (raising (getitem data ''created'')) (\<lambda>created.
        bind_out (checked (validate_date_format env created)) (\<lambda>_.
        bind_out (raising (format_timestamp env created)) (\<lambda>created'.
        bind_out (raising (setitem data ''created'' created')) (\<lambda>r1.
        bind_out (raising (setitem r1 ''updated'' created')) (\<lambda>r2.
        bind_out (raising (Option.bind (initial_white_list data) (setitem r2 ''accesssWhiteList''))) (\<lambda>r3.
        bind_out (raising (getitem r3 ''service'')) (\<lambda>services.
        bind_out (raising (py_iter services)) (\<lambda>items.
        bind_out (register_services env items) (\<lambda>items'.
        bind_out (raising (Option.bind (py_iter (rebuild services items')) reorder_services)) (\<lambda>reordered.
        bind_out (raising (setitem r3 ''service'' (JList reordered))) (\<lambda>r4.
        bind_out (raising (Option.bind (get_metadata (JList reordered)) (\<lambda>m. getitem m ''attributes''))) (\<lambda>attributes.
        if \<not> is_valid_dict_remote env attributes
        then Inl (Return (Doc (list_errors_remote env attributes)) 400)
        else
          bind_out (caught (getitem data ''id'')) (\<lambda>ident.
          Inr (Return (Doc (sanitize_record r4)) 201, dao_register db r4 ident))))))))))))))))))))"

subsection \<open>FullUpdate: \<open>update\<close>\<close>

text \<open>A dict key must be hashable: a list or a dict as key raises \<open>TypeError\<close>.\<close>

definition hashable :: "json \<Rightarrow> bool" where
  "hashable v = (case v of JList _ \<Rightarrow> False | JObj _ \<Rightarrow> False | _ \<Rightarrow> True)"

text \<open>
  \<open>services = {s['type']: s for s in record['service']}\<close> keeps, for each type, the
  last service of that type; \<open>services['metadata']\<close> is then changed in place.
\<close>

definition all_types_hashable :: "json list \<Rightarrow> bool option" where
  "all_types_hashable items =
     (if list_all has_type items
      then Some (list_all (\<lambda>s. case getitem s ''type'' of Some t \<Rightarrow> hashable t | None \<Rightarrow> False) items)
      else None)"

fun modify_last_metadata :: "(json \<Rightarrow> json option) \<Rightarrow> json list \<Rightarrow> json list option" where
  "modify_last_metadata f [] = None"
| "modify_last_metadata f (service # services) =
     (if list_ex is_metadata services
      then map_option (\<lambda>services'. service # services') (modify_last_metadata f services)
      else if is_metadata service then map_option (\<lambda>service'. service' # services) (f service)
      else None)"

definition format_metadata_dates :: "env \<Rightarrow> json \<Rightarrow> json option" where
  "format_metadata_dates env service = do {
     dc \<leftarrow> get_path service [''attributes'', ''main'', ''dateCreated''];
     dc' \<leftarrow> format_timestamp env dc;
     s1 \<leftarrow> set_path service [''attributes'', ''main'', ''dateCreated''] dc';
     dp \<leftarrow> get_path s1 [''attributes'', ''main'', ''datePublished''];
     dp' \<leftarrow> format_timestamp env dp;
     set_path s1 [''attributes'', ''main'', ''datePublished''] dp'
   }"

text \<open>
  The loop of \<open>update\<close> over the services of the new record: \<open>Some True\<close> when it
  returns the 400 for a priced asset.
\<close>

fun priced_asset :: "env \<Rightarrow> json list \<Rightarrow> bool option" where
  "priced_asset env [] = Some False"
| "priced_asset env (service # services) =
     (case type_is_metadata service of
        None \<Rightarrow> None
      | Some False \<Rightarrow> priced_asset env services
      | Some True \<Rightarrow>
          (if allow_free_assets_only env = ''true''
           then
             (case get_path service [''attributes'', ''main'', ''price''] of
                None \<Rightarrow> None
              | Some price \<Rightarrow> if price \<noteq> JStr ''0'' then Some True else priced_asset env services)
           else priced_asset env services))"

definition is_local :: "string \<Rightarrow> bool" where
  "is_local ip = (\<not> (ip \<noteq> ''127.0.0.1'' \<and> ip \<noteq> ''localhost''))"

definition update :: "env \<Rightarrow> string \<Rightarrow> string \<Rightarrow> json \<Rightarrow> store \<Rightarrow> outcome \<times> store" where
  "update env ip did data db = finish db
     (if \<not> is_dict data then Inl Uncaught
      else if \<not> is_local ip then Inl (Return (Text ''You have no rights'') 401)
      else if data = JObj [] then Inl (ReturnBare 400)
      else
        bind_out (raising (check_required_attributes ddo_required_attributes data ''update'')) (\<lambda>c.
        bind_out (checked c) (\<lambda>_.
        bind_out (raising (Option.bind (getitem data ''service'') get_main_metadata)) (\<lambda>main.
        bind_out (raising (check_no_urls_in_files main ''register'')) (\<lambda>c.
        bind_out (checked c) (\<lambda>_.
        bind_out (raising (getitem data ''created'')) (\<lambda>created.
        bind_out (checked (validate_date_format env created)) (\<lambda>_.
        bind_out (raising (format_timestamp env created)) (\<lambda>created'.
        bind_out (raising (setitem data ''created'' created')) (\<lambda>r1.
        bind_out (raising (setitem r1 ''updated'' created')) (\<lambda>r2.
        bind_out (raising (getitem r2 ''service'')) (\<lambda>services.
        bind_out (raising (Option.bind (py_iter services) reorder_services)) (\<lambda>reordered.
        bind_out (raising (all_types_hashable reordered)) (\<lambda>ok.
        bind_out (raising (if ok then modify_last_metadata (format_metadata_dates env) reordered else None)) (\<lambda>items.
        bind_out (raising (setitem r2 ''service'' (JList items))) (\<lambda>r3.
        bind_out (raising (Option.bind (get_metadata (JList items)) (\<lambda>m. getitem m ''attributes''))) (\<lambda>attributes.
        if \<not> is_valid_dict_remote env attributes
        then Inl (Return (Doc (list_errors_remote env attributes)) 400)
        else
          (case dao_get db did of
             None \<Rightarrow>
               (case register env data db of
                  (Uncaught, _) \<Rightarrow> Inl (Return SomeError 500)
                | (_, db') \<Rightarrow> Inr (Return (Doc (sanitize_record r3)) 201, db'))
           | Some _ \<Rightarrow>
               bind_out (caught (priced_asset env items)) (\<lambda>priced.
               if priced
               then Inl (Return (Text ''Priced assets are not supported in this marketplace'') 400)
               else Inr (Return (Doc (sanitize_record r3)) 200, dao_update db r3 did))))))))))))))))))))"

subsection \<open>TransferOwnership: \<open>transfer_ownership\<close>\<close>

text \<open>
  \<open>obj[i]\<close> is changed in place by \<open>f\<close>. Only the element of a list can be changed:
  the element of a string is a string, on which item assignment raises.
\<close>

definition modify_index :: "json \<Rightarrow> nat \<Rightarrow> (json \<Rightarrow> json option) \<Rightarrow> json option" where
  "modify_index obj i f =
     (case obj of
        JList xs \<Rightarrow>
          (if i < length xs then map_option (\<lambda>x'. JList (xs[i := x'])) (f (xs ! i)) else None)
      | _ \<Rightarrow> None)"

text \<open>\<open>record['publicKey'][0]['owner'] = new_owner\<close>\<close>

definition set_owner :: "json \<Rightarrow> json \<Rightarrow> json option" where
  "set_owner record new_owner =
     modify_item record ''publicKey'' (\<lambda>keys. modify_index keys 0 (\<lambda>k. setitem k ''owner'' new_owner))"

definition not_found :: "string \<Rightarrow> outcome" where
  "not_found did = Return (Text (''Cannot find did: '' @ did @ '' '')) 404"

definition not_allowed :: outcome where
  "not_allowed = Return (Text ''Not allowed to update this DID'') 401"

definition transfer_ownership :: "env \<Rightarrow> string \<Rightarrow> json \<Rightarrow> store \<Rightarrow> outcome \<times> store" where
  "transfer_ownership env did data db = finish db
     (bind_out (raising (check_required_attributes [''signature'', ''updated'', ''newOwner'']
                           data ''transferownership'')) (\<lambda>c.
      bind_out (checked c) (\<lambda>_.
      bind_out (raising (getitem data ''newOwner'')) (\<lambda>new_owner.
      if \<not> is_address env new_owner
      then Inl (Return (Text ''New owner is not a valid address'') 400)
      else
        (case dao_get db did of
           None \<Rightarrow> Inl (not_found did)
         | Some record \<Rightarrow>
             bind_out (caught (getitem data ''updated'')) (\<lambda>updated.
             bind_out (caught (getitem data ''signature'')) (\<lambda>signature.
             if \<not> can_update_did env record updated signature then Inl not_allowed
             else
               bind_out (caught (owner_of record)) (\<lambda>owner.
               if compare_eth_addresses owner new_owner
               then Inl (Return (Text ''New owner must be different than owner'') 400)
               else
                 bind_out (caught (set_owner record new_owner)) (\<lambda>r1.
                 bind_out (caught (setitem r1 ''updated'' (get_timestamp env))) (\<lambda>r2.
                 Inr (Return (Text ''Asset successfully transferred'') 200,
                      dao_update db r2 did)))))))))))"

subsection \<open>RateUpdate: \<open>update_ratings\<close>\<close>

text \<open>
  The loops over \<open>record['service']\<close> keep an index beside the service; the body
  changes \<open>record['service'][index]\<close>, which is the service itself.
\<close>

fun loop_services :: "(nat \<Rightarrow> json \<Rightarrow> json option) \<Rightarrow> nat \<Rightarrow> json list \<Rightarrow> json list option" where
  "loop_services f index [] = Some []"
| "loop_services f index (service # services) = do {
     service' \<leftarrow> f index service;
     services' \<leftarrow> loop_services f (index + 1) services;
     Some (service' # services')
   }"

definition for_each_service :: "(nat \<Rightarrow> json \<Rightarrow> json option) \<Rightarrow> json \<Rightarrow> json option" where
  "for_each_service f record = do {
     services \<leftarrow> getitem record ''service'';
     items \<leftarrow> py_iter services;
     items' \<leftarrow> loop_services f 0 items;
     setitem record ''service'' (rebuild services items')
   }"

definition rate_service :: "json \<Rightarrow> nat \<Rightarrow> json \<Rightarrow> json option" where
  "rate_service data index service = do {
     is_md \<leftarrow> type_is_metadata service;
     if \<not> is_md then Some service
     else do {
       rating \<leftarrow> getitem data ''rating'';
       rounded \<leftarrow> py_round1 rating;
       s1 \<leftarrow> set_path service [''attributes'', ''curation'', ''rating''] rounded;
       num_votes \<leftarrow> getitem data ''numVotes'';
       set_path s1 [''attributes'', ''curation'', ''numVotes''] num_votes
     }
   }"

definition update_ratings :: "env \<Rightarrow> string \<Rightarrow> json \<Rightarrow> store \<Rightarrow> outcome \<times> store" where
  "update_ratings env did data db = finish db
     (bind_out (raising (check_required_attributes [''signature'', ''updated'', ''rating'', ''numVotes'']
                           data ''ratingsupdate'')) (\<lambda>c.
      bind_out (checked c) (\<lambda>_.
      bind_out (raising (getitem data ''rating'')) (\<lambda>rating.
      if \<not> is_float rating \<and> \<not> is_int rating
      then Inl (Return (Text ''Rating is not float'') 400)
      else
        bind_out (raising (getitem data ''numVotes'')) (\<lambda>num_votes.
        if \<not> is_int num_votes
        then Inl (Return (Text ''NumVotes is not int'') 400)
        else
          (case dao_get db did of
             None \<Rightarrow> Inl (not_found did)
           | Some record \<Rightarrow>
               bind_out (caught (getitem data ''updated'')) (\<lambda>updated.
               bind_out (caught (getitem data ''signature'')) (\<lambda>signature.
               if \<not> can_update_did_from_allowed_updaters env record updated signature
               then Inl not_allowed
               else
                 bind_out (caught (setitem record ''updated'' (get_timestamp env))) (\<lambda>r1.
                 bind_out (caught (for_each_service (rate_service data) r1)) (\<lambda>r2.
                 Inr (Return (Text ''Rating successfully updated'') 200,
                      dao_update db r2 did)))))))))))"

subsection \<open>WhitelistAdd and WhitelistRemove\<close>

text \<open>
  \<open>wl.count(address) > 0\<close>: on a list the number of elements equal to the address, on
  a string the number of occurrences of the substring; other values have no \<open>count\<close>.
  The address is a string, since it passed \<open>Web3.isAddress\<close>.
\<close>

definition count_positive :: "json \<Rightarrow> json \<Rightarrow> bool option" where
  "count_positive wl address =
     (case wl of
        JList xs \<Rightarrow> Some (0 < count_list xs address)
      | JStr s \<Rightarrow> (case address of JStr a \<Rightarrow> Some (is_substring a s) | _ \<Rightarrow> None)
      | _ \<Rightarrow> None)"

definition py_append :: "json \<Rightarrow> json \<Rightarrow> json option" where
  "py_append wl v = (case wl of JList xs \<Rightarrow> Some (JList (xs @ [v])) | _ \<Rightarrow> None)"

text \<open>\<open>wl.remove(v)\<close> removes the first occurrence and raises when there is none.\<close>

definition py_remove :: "json \<Rightarrow> json \<Rightarrow> json option" where
  "py_remove wl v =
     (case wl of
        JList xs \<Rightarrow> (if v \<in> set xs then Some (JList (remove1 v xs)) else None)
      | _ \<Rightarrow> None)"

definition white_list_request ::
  "env \<Rightarrow> string \<Rightarrow> string \<Rightarrow> json \<Rightarrow> store \<Rightarrow> (json \<Rightarrow> json \<Rightarrow> outcome + (outcome \<times> store))
     \<Rightarrow> outcome \<times> store" where
  "white_list_request env method did data db action = finish db
     (bind_out (raising (check_required_attributes [''signature'', ''updated'', ''address'']
                           data method)) (\<lambda>c.
      bind_out (checked c) (\<lambda>_.
      bind_out (raising (getitem data ''address'')) (\<lambda>address.
      if \<not> is_address env address
      then Inl (Return (Text ''Address is not a valid eth address'') 400)
      else
        (case dao_get db did of
           None \<Rightarrow> Inl (not_found did)
         | Some record \<Rightarrow>
             bind_out (caught (getitem data ''updated'')) (\<lambda>updated.
             bind_out (caught (getitem data ''signature'')) (\<lambda>signature.
             if \<not> can_update_did env record updated signature then Inl not_allowed
             else action record address)))))))"

definition add_access_white_list :: "env \<Rightarrow> string \<Rightarrow> json \<Rightarrow> store \<Rightarrow> outcome \<times> store" where
  "add_access_white_list env did data db =
     white_list_request env ''addaccessWhiteList'' did data db (\<lambda>record address.
       bind_out (caught (getitem record ''accesssWhiteList'')) (\<lambda>wl.
       bind_out (caught (count_positive wl address)) (\<lambda>present.
       if present then Inl (Return (Text ''Address already in list'') 400)
       else
         bind_out (caught (py_append wl address)) (\<lambda>wl'.
         bind_out (caught (setitem record ''accesssWhiteList'' wl')) (\<lambda>r1.
         bind_out (caught (setitem r1 ''updated'' (get_timestamp env))) (\<lambda>r2.
         Inr (Return (Text ''Address added.'') 200, dao_update db r2 did)))))))"

definition delete_access_white_list :: "env \<Rightarrow> string \<Rightarrow> json \<Rightarrow> store \<Rightarrow> outcome \<times> store" where
  "delete_access_white_list env did data db =
     white_list_request env ''deleteaccessWhiteList'' did data db (\<lambda>record address.
       bind_out (caught (getitem record ''accesssWhiteList'')) (\<lambda>wl.
       bind_out (caught (count_positive wl address)) (\<lambda>present.
       if \<not> present then Inl (Return (Text ''Address not in list'') 400)
       else
         bind_out (caught (py_remove wl address)) (\<lambda>wl'.
         bind_out (caught (setitem record ''accesssWhiteList'' wl')) (\<lambda>r1.
         bind_out (caught (setitem r1 ''updated'' (get_timestamp env))) (\<lambda>r2.
         Inr (Return (Text ''Address removed.'') 200, dao_update db r2 did)))))))"

subsection \<open>Retire and RetireAll\<close>

definition retire :: "env \<Rightarrow> string \<Rightarrow> string \<Rightarrow> json \<Rightarrow> store \<Rightarrow> outcome \<times> store" where
  "retire env ip did data db = finish db
     (case dao_get db did of
        None \<Rightarrow> Inl (Return (Text ''This asset DID is not in OceanDB'') 404)
      | Some record \<Rightarrow>
          bind_out
            (if \<not> is_local ip
             then
               bind_out (caught (check_required_attributes [''signature'', ''updated'']
                                   data ''deleteasset'')) (\<lambda>c.
               bind_out (checked c) (\<lambda>_.
               bind_out (caught (getitem data ''updated'')) (\<lambda>updated.
               bind_out (caught (getitem data ''signature'')) (\<lambda>signature.
               if \<not> can_update_did env record updated signature then Inl not_allowed
               else Inr ()))))
             else Inr ()) (\<lambda>_.
          Inr (Return (Text ''Succesfully deleted'') 200, dao_delete db (JStr did))))"

text \<open>
  \<open>all_ids = [a['id'] for a in dao.get_all_assets()]\<close>: a document without \<open>id\<close>
  raises \<open>KeyError\<close> before anything is deleted.
\<close>

fun asset_ids :: "json list \<Rightarrow> json list option" where
  "asset_ids [] = Some []"
| "asset_ids (a # assets) =
     (case getitem a ''id'' of
        None \<Rightarrow> None
      | Some i \<Rightarrow> map_option (\<lambda>ids. i # ids) (asset_ids assets))"

text \<open>\<open>for i in all_ids: dao.delete(i)\<close>\<close>

fun delete_each :: "json list \<Rightarrow> store \<Rightarrow> store" where
  "delete_each [] db = db"
| "delete_each (i # ids) db = delete_each ids (dao_delete db i)"

definition retire_all :: "env \<Rightarrow> string \<Rightarrow> store \<Rightarrow> outcome \<times> store" where
  "retire_all env ip db =
     (if \<not> is_local ip then (Return (Text ''You have no rights'') 401, db)
      else
        (case asset_ids (get_all_assets env db) of
           None \<Rightarrow> (Return (Text ''An error was found'') 500, db)
         | Some all_ids \<Rightarrow>
             (Return (Text ''All ddo successfully deleted'') 200, delete_each all_ids db)))"

subsection \<open>PartialMetadataUpdate: \<open>update_metadata\<close>\<close>

text \<open>
  \<open>isinstance(link['name'], str) and isinstance(link['url'], str) and
  isinstance(link['type'], str)\<close>: \<open>and\<close> stops at the first operand that is false, so
  a later key is only read when the earlier values are strings; reading a key that the
  link does not have raises \<open>KeyError\<close>.
\<close>

definition link_ok :: "json \<Rightarrow> bool option" where
  "link_ok link = do {
     name \<leftarrow> getitem link ''name'';
     if \<not> is_str name then Some False
     else do {
       url \<leftarrow> getitem link ''url'';
       if \<not> is_str url then Some False
       else do {
         type \<leftarrow> getitem link ''type'';
         Some (is_str type)
       }
     }
   }"

fun new_links :: "json list \<Rightarrow> json list option" where
  "new_links [] = Some []"
| "new_links (link # links) = do {
     ok \<leftarrow> link_ok link;
     rest \<leftarrow> new_links links;
     Some (if ok then link # rest else rest)
   }"

definition update_title :: "json \<Rightarrow> json \<Rightarrow> json option" where
  "update_title data service =
     (case getitem data ''title'' of
        Some title \<Rightarrow>
          if is_str title then set_path service [''attributes'', ''main'', ''name''] title
          else Some service
      | None \<Rightarrow> Some service)"

definition update_description :: "json \<Rightarrow> json \<Rightarrow> json option" where
  "update_description data service =
     (case getitem data ''description'' of
        Some description \<Rightarrow>
          if is_str description
          then set_path service [''attributes'', ''additionalInformation'', ''description''] description
          else Some service
      | None \<Rightarrow> Some service)"

definition update_links :: "json \<Rightarrow> json \<Rightarrow> json option" where
  "update_links data service =
     (case getitem data ''links'' of
        Some (JList links) \<Rightarrow> do {
          kept \<leftarrow> new_links links;
          if 0 < length kept
          then set_path service [''attributes'', ''additionalInformation'', ''links''] (JList kept)
          else Some service
        }
      | _ \<Rightarrow> Some service)"

text \<open>The value of an \<open>int\<close> (or \<open>bool\<close>) in a comparison with the loop index.\<close>

definition int_value :: "json \<Rightarrow> int" where
  "int_value v = (case v of JInt n \<Rightarrow> n | JBool b \<Rightarrow> (if b then 1 else 0) | _ \<Rightarrow> 0)"

fun apply_prices :: "nat \<Rightarrow> json list \<Rightarrow> json \<Rightarrow> json option" where
  "apply_prices index [] service = Some service"
| "apply_prices index (price # prices) service = do {
     service_index \<leftarrow> getitem price ''serviceIndex'';
     if \<not> is_int service_index then apply_prices index prices service
     else do {
       p \<leftarrow> getitem price ''price'';
       if \<not> is_str p \<or> int_value service_index \<noteq> int index then apply_prices index prices service
       else do {
         has_attributes \<leftarrow> py_in ''attributes'' service;
         if \<not> has_attributes then apply_prices index prices service
         else do {
           attributes \<leftarrow> getitem service ''attributes'';
           has_main \<leftarrow> py_in ''main'' attributes;
           if \<not> has_main then apply_prices index prices service
           else do {
             service' \<leftarrow> set_path service [''attributes'', ''main'', ''price''] p;
             apply_prices index prices service'
           }
         }
       }
     }
   }"

definition service_prices :: "json \<Rightarrow> json list" where
  "service_prices data = (case getitem data ''servicePrices'' of Some (JList prices) \<Rightarrow> prices | _ \<Rightarrow> [])"

definition update_metadata_service :: "json \<Rightarrow> nat \<Rightarrow> json \<Rightarrow> json option" where
  "update_metadata_service data index service = do {
     is_md \<leftarrow> type_is_metadata service;
     s1 \<leftarrow> (if is_md
           then do {
             a \<leftarrow> update_title data service;
             b \<leftarrow> update_description data a;
             update_links data b
           }
           else Some service);
     apply_prices index (service_prices data) s1
   }"

definition update_metadata :: "env \<Rightarrow> string \<Rightarrow> json \<Rightarrow> store \<Rightarrow> outcome \<times> store" where
  "update_metadata env did data db = finish db
     (bind_out (raising (check_required_attributes [''signature'', ''updated'']
                           data ''metadataupdate'')) (\<lambda>c.
      bind_out (checked c) (\<lambda>_.
      (case dao_get db did of
         None \<Rightarrow> Inl (not_found did)
       | Some record \<Rightarrow>
           bind_out (caught (getitem data ''updated'')) (\<lambda>updated.
           bind_out (caught (getitem data ''signature'')) (\<lambda>signature.
           if \<not> can_update_did env record updated signature then Inl not_allowed
           else
             bind_out (caught (setitem record ''updated'' (get_timestamp env))) (\<lambda>r1.
             bind_out (caught (for_each_service (update_metadata_service data) r1)) (\<lambda>r2.
             Inr (Return (Text ''Metadata successfully updated'') 200,
                  dao_update db r2 did)))))))))"

subsection \<open>Requests\<close>

text \<open>
  The mutating requests of the HTTP surface, with the caller's remote address where the
  handler reads it, the DID of the path and the JSON payload.
\<close>

datatype request =
    Create json
  | FullUpdate string string json
  | TransferOwnership string json
  | RateUpdate string json
  | WhitelistAdd string json
  | WhitelistRemove string json
  | PartialMetadataUpdate string json
  | Retire string string json
  | RetireAll string

fun handle :: "env \<Rightarrow> request \<Rightarrow> store \<Rightarrow> outcome \<times> store" where
  "handle env (Create data) db = register env data db"
| "handle env (FullUpdate ip did data) db = update env ip did data db"
| "handle env (TransferOwnership did data) db = transfer_ownership env did data db"
| "handle env (RateUpdate did data) db = update_ratings env did data db"
| "handle env (WhitelistAdd did data) db = add_access_white_list env did data db"
| "handle env (WhitelistRemove did data) db = delete_access_white_list env did data db"
| "handle env (PartialMetadataUpdate did data) db = update_metadata env did data db"
| "handle env (Retire ip did data) db = retire env ip did data db"
| "handle env (RetireAll ip) db = retire_all env ip db"

section \<open>Reading the store\<close>

text \<open>
  A request is authorized as owner when the stored document, the submitted \<open>updated\<close>
  and \<open>signature\<close> pass \<open>_can_update_did\<close>.
\<close>

definition authorized_as_owner :: "env \<Rightarrow> store \<Rightarrow> string \<Rightarrow> json \<Rightarrow> bool" where
  "authorized_as_owner env db did data =
     (case (dao_get db did, getitem data ''updated'', getitem data ''signature'') of
        (Some record, Some updated, Some signature) \<Rightarrow> can_update_did env record updated signature
      | _ \<Rightarrow> False)"

definition white_list_of :: "store \<Rightarrow> string \<Rightarrow> json option" where
  "white_list_of db did = Option.bind (dao_get db did) (\<lambda>record. getitem record ''accesssWhiteList'')"

section \<open>Example data\<close>

text \<open>
  A concrete environment, payload and stored document on which the handlers are run.
  The parser is given by its graph at the timestamps that occur; the second one is not
  zero-padded, which \<open>strptime\<close> accepts and \<open>isoformat\<close> normalizes. The stores of
  the examples hold no document but the one of \<open>example_did\<close>, which the listing gives.
\<close>

definition example_did :: string where
  "example_did = ''did:op:0c184915b07b''"

definition example_owner :: string where
  "example_owner = ''0x00Bd138aBD70e2F00903268F3Db08f2D25677C9e''"

definition example_stranger :: string where
  "example_stranger = ''0x858048e3Ebdd3754e14F63d1185F8252eF142393''"

definition example_updater :: string where
  "example_updater = ''0x1111111111111111111111111111111111111111''"

definition example_env :: env where
  "example_env =
     \<lparr> strptime = map_of
         [(''2020-01-01T00:00:00Z'',
             \<lparr>year = 2020, month = 1, day = 1, hour = 0, minute = 0, second = 0\<rparr>),
          (''2012-2-1T10:55:11Z'',
             \<lparr>year = 2012, month = 2, day = 1, hour = 10, minute = 55, second = 11\<rparr>),
          (''2012-02-01T10:55:11Z'',
             \<lparr>year = 2012, month = 2, day = 1, hour = 10, minute = 55, second = 11\<rparr>),
          (''2020-01-01T00:00:05Z'',
             \<lparr>year = 2020, month = 1, day = 1, hour = 0, minute = 0, second = 5\<rparr>),
          (''2021-06-15T12:30:45Z'',
             \<lparr>year = 2021, month = 6, day = 15, hour = 12, minute = 30, second = 45\<rparr>)],
       utcnow = \<lparr>year = 2021, month = 6, day = 15, hour = 12, minute = 30, second = 45\<rparr>,
       is_valid_dict_remote = (\<lambda>attributes. True),
       list_errors_remote = (\<lambda>attributes. JList []),
       allow_free_assets_only = ''false'',
       isAddress = (\<lambda>s. length s = 42 \<and> take 2 s = ''0x''),
       recoverSigner = (\<lambda>updated signature.
         if signature = JStr ''0xsigned-by-owner'' then Some (map lower_char example_owner)
         else if signature = JStr ''0xsigned-by-updater'' then Some example_updater
         else if signature = JStr ''0xsigned-by-stranger'' then Some example_stranger
         else None),
       allowed_updaters = [example_updater],
       get_all_assets = (\<lambda>db. case db (JStr example_did) of None \<Rightarrow> [] | Some doc \<Rightarrow> [doc]) \<rparr>"

definition example_access_service :: json where
  "example_access_service =
     JObj [(''type'', JStr ''access''), (''index'', JInt 1),
           (''serviceEndpoint'', JStr ''http://localhost:8030/consume'')]"

definition example_metadata_service :: json where
  "example_metadata_service =
     JObj [(''type'', JStr ''metadata''), (''index'', JInt 0),
           (''attributes'', JObj
              [(''main'', JObj
                  [(''name'', JStr ''UK Weather information 2011''),
                   (''type'', JStr ''dataset''),
                   (''dateCreated'', JStr ''2012-2-1T10:55:11Z''),
                   (''author'', JStr ''Met Office''),
                   (''license'', JStr ''CC-BY''),
                   (''files'', JList [JObj [(''index'', JInt 0), (''contentType'', JStr ''text/csv'')]]),
                   (''price'', JStr ''10'')]),
               (''additionalInformation'', JObj
                  [(''description'', JStr ''Weather information of UK''),
                   (''links'', JList
                      [JObj [(''name'', JStr ''Sample of Asset Data''), (''type'', JStr ''sample''),
                             (''url'', JStr ''https://foo.com/sample.csv'')]])])])]"

definition example_payload_fields :: "(string \<times> json) list" where
  "example_payload_fields =
     [(''@context'', JStr ''https://w3id.org/did/v1''),
      (''id'', JStr example_did),
      (''created'', JStr ''2020-01-01T00:00:00Z''),
      (''publicKey'', JList
         [JObj [(''id'', JStr example_did), (''type'', JStr ''EthereumECDSAKey''),
                (''owner'', JStr example_owner)]]),
      (''authentication'', JList
         [JObj [(''type'', JStr ''RsaSignatureAuthentication2018''),
                (''publicKey'', JStr example_did)]]),
      (''proof'', JObj [(''type'', JStr ''DDOIntegritySignature'')]),
      (''service'', JList [example_access_service, example_metadata_service])]"

definition example_payload :: json where
  "example_payload = JObj example_payload_fields"

text \<open>The same payload with an access list that names one address twice.\<close>

definition example_duplicates_payload :: json where
  "example_duplicates_payload =
     JObj (example_payload_fields
             @ [(''accesssWhiteList'', JList [JStr example_stranger, JStr example_stranger])])"

definition example_stored_metadata_service :: json where
  "example_stored_metadata_service =
     JObj [(''type'', JStr ''metadata''), (''index'', JInt 0),
           (''attributes'', JObj
              [(''main'', JObj
                  [(''name'', JStr ''UK Weather information 2011''),
                   (''type'', JStr ''dataset''),
                   (''dateCreated'', JStr ''2012-02-01T10:55:11Z''),
                   (''author'', JStr ''Met Office''),
                   (''license'', JStr ''CC-BY''),
                   (''files'', JList [JObj [(''index'', JInt 0), (''contentType'', JStr ''text/csv'')]]),
                   (''price'', JStr ''10''),
                   (''datePublished'', JStr ''2021-06-15T12:30:45Z'')]),
               (''additionalInformation'', JObj
                  [(''description'', JStr ''Weather information of UK''),
                   (''links'', JList
                      [JObj [(''name'', JStr ''Sample of Asset Data''), (''type'', JStr ''sample''),
                             (''url'', JStr ''https://foo.com/sample.csv'')]])]),
               (''curation'', JObj
                  [(''rating'', JFloat zero_float), (''numVotes'', JInt 0),
                   (''isListed'', JBool True)])])]"

text \<open>The document that \<open>register\<close> stores for \<open>example_payload\<close>.\<close>

definition example_ddo_fields :: "(string \<times> json) list" where
  "example_ddo_fields =
     [(''@context'', JStr ''https://w3id.org/did/v1''),
      (''id'', JStr example_did),
      (''created'', JStr ''2020-01-01T00:00:00Z''),
      (''publicKey'', JList
         [JObj [(''id'', JStr example_did), (''type'', JStr ''EthereumECDSAKey''),
                (''owner'', JStr example_owner)]]),
      (''authentication'', JList
         [JObj [(''type'', JStr ''RsaSignatureAuthentication2018''),
                (''publicKey'', JStr example_did)]]),
      (''proof'', JObj [(''type'', JStr ''DDOIntegritySignature'')]),
      (''service'', JList [example_stored_metadata_service, example_access_service]),
      (''updated'', JStr ''2020-01-01T00:00:00Z''),
      (''accesssWhiteList'', JList [])]"

definition example_ddo :: json where
  "example_ddo = JObj example_ddo_fields"

definition example_db :: store where
  "example_db = [JStr example_did \<mapsto> example_ddo]"

text \<open>The fields that carry the proof of control in the owner-gated requests.\<close>

definition signed_by :: "string \<Rightarrow> (string \<times> json) list" where
  "signed_by who =
     [(''updated'', JStr ''2020-01-01T00:00:05Z''), (''signature'', JStr (''0xsigned-by-'' @ who))]"

definition example_white_list_payload :: json where
  "example_white_list_payload = JObj (signed_by ''owner'' @ [(''address'', JStr example_stranger)])"

definition example_transfer_payload :: "string \<Rightarrow> json" where
  "example_transfer_payload new_owner = JObj (signed_by ''owner'' @ [(''newOwner'', JStr new_owner)])"

text \<open>The status of an outcome that is a response \<open>body, status\<close>.\<close>

definition status_of :: "outcome \<Rightarrow> nat option" where
  "status_of out = (case out of Return _ status \<Rightarrow> Some status | _ \<Rightarrow> None)"

text \<open>The curation that \<open>register\<close> gives a metadata service.\<close>

definition initial_curation :: json where
  "initial_curation =
     JObj [(''rating'', JFloat zero_float), (''numVotes'', JInt 0), (''isListed'', JBool True)]"

definition curated :: "json \<Rightarrow> bool" where
  "curated service =
     (is_metadata service \<longrightarrow> get_path service [''attributes'', ''curation''] = Some initial_curation)"

text \<open>The stored example document after a later change: \<open>updated\<close> is the time of the change.\<close>

definition example_db_touched :: store where
  "example_db_touched =
     [JStr example_did \<mapsto> JObj (alist_put ''updated'' (JStr ''2021-06-15T12:30:45Z'') example_ddo_fields)]"

text \<open>
  A FullUpdate payload that rewrites the owner of the example document and carries a
  proof of control signed by somebody who is not the owner.
\<close>

definition example_takeover_payload :: json where
  "example_takeover_payload =
     JObj (alist_put ''signature'' (JStr ''0xsigned-by-stranger'')
            (alist_put ''updated'' (JStr ''2020-01-01T00:00:05Z'')
              (alist_put ''publicKey''
                 (JList [JObj [(''id'', JStr example_did), (''type'', JStr ''EthereumECDSAKey''),
                               (''owner'', JStr example_stranger)]])
                 example_ddo_fields)))"

text \<open>Chronological order of two timestamps that parse.\<close>

definition datetime_less :: "datetime \<Rightarrow> datetime \<Rightarrow> bool" where
  "datetime_less a b =
     (year a < year b \<or> (year a = year b \<and>
     (month a < month b \<or> (month a = month b \<and>
     (day a < day b \<or> (day a = day b \<and>
     (hour a < hour b \<or> (hour a = hour b \<and>
     (minute a < minute b \<or> (minute a = minute b \<and> second a < second b))))))))))"

definition earlier :: "env \<Rightarrow> json \<Rightarrow> json \<Rightarrow> bool" where
  "earlier env a b =
     (case (a, b) of
        (JStr x, JStr y) \<Rightarrow>
          (case (strptime env x, strptime env y) of
             (Some dx, Some dy) \<Rightarrow> datetime_less dx dy
           | _ \<Rightarrow> False)
      | _ \<Rightarrow> False)"

text \<open>The metadata services of a stored document and what their curation holds.\<close>

definition metadata_services :: "json \<Rightarrow> json list" where
  "metadata_services doc =
     (case getitem doc ''service'' of Some (JList services) \<Rightarrow> filter is_metadata services | _ \<Rightarrow> [])"

definition stored_ratings :: "store \<Rightarrow> string \<Rightarrow> json option list" where
  "stored_ratings db did =
     (case dao_get db did of
        None \<Rightarrow> []
      | Some doc \<Rightarrow>
          map (\<lambda>m. get_path m [''attributes'', ''curation'', ''rating'']) (metadata_services doc))"

definition stored_num_votes :: "store \<Rightarrow> string \<Rightarrow> json option list" where
  "stored_num_votes db did =
     (case dao_get db did of
        None \<Rightarrow> []
      | Some doc \<Rightarrow>
          map (\<lambda>m. get_path m [''attributes'', ''curation'', ''numVotes'']) (metadata_services doc))"

text \<open>
  The float that a decimal numeral denotes, as \<open>float('2.449')\<close> or the JSON parser
  reads it: the nearest double, infinity beyond the largest one.
\<close>

definition float_of_decimal :: "bool \<Rightarrow> nat \<Rightarrow> nat \<Rightarrow> pyfloat" where
  "float_of_decimal s n d = (case nearest_double s n d of Some x \<Rightarrow> x | None \<Rightarrow> Infinite s)"

definition example_rating_payload :: "json \<Rightarrow> json \<Rightarrow> json" where
  "example_rating_payload rating num_votes =
     JObj (signed_by ''updater'' @ [(''rating'', rating), (''numVotes'', num_votes)])"

text \<open>The requests that neither replace nor delete a document nor rate it.\<close>

definition keeps_num_votes :: "request \<Rightarrow> bool" where
  "keeps_num_votes req =
     (case req of
        TransferOwnership _ _ \<Rightarrow> True
      | WhitelistAdd _ _ \<Rightarrow> True
      | WhitelistRemove _ _ \<Rightarrow> True
      | PartialMetadataUpdate _ _ \<Rightarrow> True
      | _ \<Rightarrow> False)"



text \<open>The paths below a service that a PartialMetadataUpdate writes.\<close>

definition metadata_update_paths :: "string list list" where
  "metadata_update_paths =
     [ [''attributes'', ''main'', ''name''],
       [''attributes'', ''additionalInformation'', ''description''],
       [''attributes'', ''additionalInformation'', ''links''],
       [''attributes'', ''main'', ''price''] ]"

text \<open>Two paths are apart when neither is a prefix of the other.\<close>

definition apart :: "string list \<Rightarrow> string list \<Rightarrow> bool" where
  "apart p q = (\<not> is_prefix p q \<and> \<not> is_prefix q p)"

text \<open>A link entry that carries the three keys, and one whose three values are strings.\<close>

definition has_link_keys :: "json \<Rightarrow> bool" where
  "has_link_keys link =
     (getitem link ''name'' \<noteq> None \<and> getitem link ''url'' \<noteq> None \<and> getitem link ''type'' \<noteq> None)"

definition is_str_at :: "json \<Rightarrow> string \<Rightarrow> bool" where
  "is_str_at obj key = (case getitem obj key of Some v \<Rightarrow> is_str v | None \<Rightarrow> False)"

definition well_formed_link :: "json \<Rightarrow> bool" where
  "well_formed_link link = (is_str_at link ''name'' \<and> is_str_at link ''url'' \<and> is_str_at link ''type'')"

definition stored_links :: "store \<Rightarrow> string \<Rightarrow> json option list" where
  "stored_links db did =
     (case dao_get db did of
        None \<Rightarrow> []
      | Some doc \<Rightarrow>
          map (\<lambda>m. get_path m [''attributes'', ''additionalInformation'', ''links''])
            (metadata_services doc))"

text \<open>
  A stored document on which a change of the links can be carried out: its services are
  a list, each with a type, and each metadata service has an object at
  \<open>attributes.additionalInformation\<close>.
\<close>

definition has_additional_information :: "json \<Rightarrow> bool" where
  "has_additional_information service =
     (case get_path service [''attributes'', ''additionalInformation''] of
        Some d \<Rightarrow> is_dict d
      | None \<Rightarrow> False)"

definition links_can_be_set :: "json \<Rightarrow> bool" where
  "links_can_be_set doc =
     (case getitem doc ''service'' of
        Some (JList services) \<Rightarrow>
          list_all has_type services \<and> list_all has_additional_information (filter is_metadata services)
      | _ \<Rightarrow> False)"

text \<open>The payload of the spec's example, signed by the owner.\<close>

definition example_links_payload :: json where
  "example_links_payload =
     JObj (signed_by ''owner'' @
       [(''links'', JList
          [JObj [(''name'', JStr ''x''), (''url'', JStr ''http://a''), (''type'', JStr ''sample'')],
           JObj [(''name'', JStr ''bad'')]])])"

text \<open>The same with a second entry that has the three keys, one of them no string.\<close>

definition example_typed_links_payload :: json where
  "example_typed_links_payload =
     JObj (signed_by ''owner'' @
       [(''links'', JList
          [JObj [(''name'', JStr ''x''), (''url'', JStr ''http://a''), (''type'', JStr ''sample'')],
           JObj [(''name'', JStr ''bad''), (''url'', JInt 5), (''type'', JNull)]])])"



section \<open>Basic facts\<close>

text \<open>Definitions to unfold when a handler is run on concrete data.\<close>

lemmas example_defs = example_db_def example_ddo_def example_ddo_fields_def example_did_def example_owner_def
  example_stranger_def example_updater_def example_env_def example_access_service_def
  example_metadata_service_def example_stored_metadata_service_def example_payload_def
  example_payload_fields_def example_duplicates_payload_def
  signed_by_def

lemmas value_defs = getitem_def getindex_def setitem_def modify_item_def py_in_def py_iter_def
  is_str_def is_list_def is_int_def is_float_def is_dict_def type_is_metadata_def
  reorder_services_def is_metadata_def has_type_def rebuild_def hashable_def int_value_def

lemmas helper_defs = digit_def pad2_def pad4_def isoformat_def get_timestamp_def
  format_timestamp_def validate_date_format_def lower_char_def compare_eth_addresses_def
  owner_of_def can_update_did_def can_update_did_from_allowed_updaters_def is_address_def
  dao_get_def dao_register_def dao_update_def dao_delete_def
  bind_out_def raising_def caught_def checked_def finish_def check_required_attributes_def
  check_no_urls_in_files_def get_metadata_def get_main_metadata_def sanitize_record_def
  zero_float_def ddo_required_attributes_def initial_white_list_def all_types_hashable_def
  format_metadata_dates_def is_local_def modify_index_def set_owner_def not_found_def
  not_allowed_def for_each_service_def count_positive_def py_append_def py_remove_def
  link_ok_def update_title_def update_description_def update_links_def service_prices_def
  authorized_as_owner_def white_list_of_def

lemmas handler_defs = register_service_def register_def update_def transfer_ownership_def
  rate_service_def update_ratings_def white_list_request_def add_access_white_list_def
  delete_access_white_list_def retire_def retire_all_def update_metadata_service_def
  update_metadata_def

subsection \<open>Steps of a handler\<close>

lemma bind_out_simps [simp]:
  "bind_out (Inl out) f = Inl out"
  "bind_out (Inr a) f = f a"
  by (simp_all add: bind_out_def)

lemma raising_simps [simp]:
  "raising None = Inl Uncaught"
  "raising (Some a) = Inr a"
  by (simp_all add: raising_def)

lemma caught_simps [simp]:
  "caught None = Inl (Return SomeError 500)"
  "caught (Some a) = Inr a"
  by (simp_all add: caught_def)

lemma checked_simps [simp]:
  "checked None = Inr ()"
  "checked (Some (msg, status)) = Inl (Return (Text msg) status)"
  by (simp_all add: checked_def)

lemma finish_simps [simp]:
  "finish db (Inl out) = (out, db)"
  "finish db (Inr res) = res"
  by (simp_all add: finish_def)

lemma map_of_alist_put:
  "map_of (alist_put k v kvs) k' = (if k' = k then Some v else map_of kvs k')"
  by (induction kvs) auto

lemma getitem_setitem:
  "setitem obj k v = Some obj' \<Longrightarrow> getitem obj' k' = (if k' = k then Some v else getitem obj k')"
  by (auto simp: setitem_def getitem_def map_of_alist_put split: json.splits)

lemma setitem_Some_iff: "(\<exists>obj'. setitem obj k v = Some obj') \<longleftrightarrow> is_dict obj"
  by (auto simp: setitem_def is_dict_def split: json.splits)

lemma getitem_Some_is_dict: "getitem obj k = Some v \<Longrightarrow> is_dict obj"
  by (auto simp: getitem_def is_dict_def split: json.splits)

lemma first_missing_None:
  "set required \<subseteq> fst ` set kvs \<Longrightarrow> first_missing required kvs = None"
  by (induction required) auto

lemma getitem_key_in: "getitem (JObj kvs) k = Some v \<Longrightarrow> k \<in> fst ` set kvs"
  by (auto simp: getitem_def dest: map_of_SomeD intro: rev_image_eqI)

lemma check_required_attributes_pass:
  assumes "\<forall>k \<in> set required. getitem data k \<noteq> None" "required \<noteq> []"
  shows "check_required_attributes required data method = Some None"
proof -
  from assms obtain k where k: "k \<in> set required" by (cases required) auto
  with assms obtain v where v: "getitem data k = Some v" by auto
  then obtain kvs where data: "data = JObj kvs"
    by (auto simp: getitem_def split: json.splits)
  with v have ne: "kvs \<noteq> []" by (auto simp: getitem_def)
  have "set required \<subseteq> fst ` set kvs"
    using assms(1) data by (auto dest: getitem_key_in)
  then show ?thesis
    using data ne by (simp add: check_required_attributes_def first_missing_None)
qed


section \<open>Properties of the service ordering\<close>

lemma reorder_pass_Some:
  "list_all has_type services \<Longrightarrow>
   reorder_pass want services result =
     Some (result @ filter (\<lambda>s. is_metadata s = want) services)"
proof (induction services arbitrary: result)
  case Nil
  then show ?case by simp
next
  case (Cons s services)
  from Cons.prems obtain t where t: "getitem s ''type'' = Some t"
    by (auto simp: has_type_def)
  from Cons.prems have rest: "list_all has_type services" by simp
  show ?case
    using Cons.IH [OF rest] t
    by (simp add: type_is_metadata_def is_metadata_def)
qed

lemma reorder_pass_None:
  "\<not> list_all has_type services \<Longrightarrow> reorder_pass want services result = None"
proof (induction services arbitrary: result)
  case Nil
  then show ?case by simp
next
  case (Cons s services)
  then show ?case
    by (cases "getitem s ''type''") (auto simp: type_is_metadata_def has_type_def)
qed

lemma reorder_services_eq:
  "reorder_services services =
     (if list_all has_type services
      then Some (filter is_metadata services @ filter (\<lambda>s. \<not> is_metadata s) services)
      else None)"
proof (cases "list_all has_type services")
  case True
  have "(\<lambda>s. is_metadata s = True) = is_metadata" by auto
  moreover have "(\<lambda>s. is_metadata s = False) = (\<lambda>s. \<not> is_metadata s)" by auto
  ultimately show ?thesis
    using True by (simp add: reorder_services_def reorder_pass_Some)
next
  case False
  then show ?thesis by (simp add: reorder_services_def reorder_pass_None)
qed

text \<open>
  Claim C5. For every service list whose entries all carry a \<open>type\<close>, the reorder
  operation returns a stable partition: the entries of type \<open>metadata\<close> first, in their
  original relative order, then all other entries in their original relative order; the
  result holds exactly the entries of the input, none added, removed or changed.
\<close>

theorem reorder_services_stable_partition:
  assumes "list_all has_type services"
  shows "\<exists>result. reorder_services services = Some result
           \<and> result = filter is_metadata services @ filter (\<lambda>s. \<not> is_metadata s) services
           \<and> mset result = mset services
           \<and> length result = length services"
proof -
  let ?r = "filter is_metadata services @ filter (\<lambda>s. \<not> is_metadata s) services"
  have "reorder_services services = Some ?r"
    using assms by (simp add: reorder_services_eq)
  moreover have "mset ?r = mset services" by simp
  moreover from this have "length ?r = length services"
    by (metis size_mset)
  ultimately show ?thesis by blast
qed

theorem reorder_services_stable_partition_witness:
  "list_all has_type
     [JObj [(''type'', JStr ''access''), (''index'', JInt 1)],
      JObj [(''type'', JStr ''metadata''), (''index'', JInt 0)],
      JObj [(''type'', JStr ''authorization''), (''index'', JInt 2)]]
   \<and> reorder_services
     [JObj [(''type'', JStr ''access''), (''index'', JInt 1)],
      JObj [(''type'', JStr ''metadata''), (''index'', JInt 0)],
      JObj [(''type'', JStr ''authorization''), (''index'', JInt 2)]]
   = Some
     [JObj [(''type'', JStr ''metadata''), (''index'', JInt 0)],
      JObj [(''type'', JStr ''access''), (''index'', JInt 1)],
      JObj [(''type'', JStr ''authorization''), (''index'', JInt 2)]]"
proof -
  have h: "list_all has_type
     [JObj [(''type'', JStr ''access''), (''index'', JInt 1)],
      JObj [(''type'', JStr ''metadata''), (''index'', JInt 0)],
      JObj [(''type'', JStr ''authorization''), (''index'', JInt 2)]]"
    by (simp add: has_type_def getitem_def)
  show ?thesis
    using h reorder_services_stable_partition [OF h]
    by (simp add: is_metadata_def getitem_def)
qed

lemma count_positive_list [simp]: "count_positive (JList xs) a = Some (a \<in> set xs)"
  using count_list_0_iff [of xs a] by (auto simp: count_positive_def)

lemma white_list_request_authorized:
  assumes "authorized_as_owner env db did data"
    and "getitem data ''address'' = Some address"
    and "is_address env address"
  shows "white_list_request env method did data db action
           = finish db (action (the (dao_get db did)) address)"
proof -
  from assms(1) obtain doc updated signature where
    r: "dao_get db did = Some doc" and u: "getitem data ''updated'' = Some updated"
    and s: "getitem data ''signature'' = Some signature"
    and c: "can_update_did env doc updated signature"
    by (auto simp: authorized_as_owner_def split: option.splits)
  have "check_required_attributes [''signature'', ''updated'', ''address''] data method = Some None"
    using u s assms(2) by (intro check_required_attributes_pass) auto
  then show ?thesis
    using r u s c assms(2,3) by (simp add: white_list_request_def)
qed

lemma add_access_white_list_fresh:
  assumes "authorized_as_owner env db did data"
    and "getitem data ''address'' = Some address"
    and "is_address env address"
    and "white_list_of db did = Some (JList wl)"
    and "address \<notin> set wl"
  shows "\<exists>db'. add_access_white_list env did data db = (Return (Text ''Address added.'') 200, db')
           \<and> white_list_of db' did = Some (JList (wl @ [address]))"
proof -
  from assms(1) obtain doc where r: "dao_get db did = Some doc"
    by (auto simp: authorized_as_owner_def split: option.splits)
  have w: "\<And>method action. white_list_request env method did data db action
              = finish db (action doc address)"
    using white_list_request_authorized [OF assms(1-3)] r by simp
  from assms(4) r have g: "getitem doc ''accesssWhiteList'' = Some (JList wl)"
    by (simp add: white_list_of_def)
  then obtain kvs where k: "doc = JObj kvs"
    by (auto simp: getitem_def split: json.splits)
  show ?thesis
    using g assms(5) unfolding add_access_white_list_def w k
    by (simp add: py_append_def setitem_def white_list_of_def dao_get_def dao_update_def
        getitem_def map_of_alist_put)
qed

lemma add_access_white_list_present:
  assumes "authorized_as_owner env db did data"
    and "getitem data ''address'' = Some address"
    and "is_address env address"
    and "white_list_of db did = Some (JList wl)"
    and "address \<in> set wl"
  shows "add_access_white_list env did data db = (Return (Text ''Address already in list'') 400, db)"
proof -
  from assms(1) obtain doc where r: "dao_get db did = Some doc"
    by (auto simp: authorized_as_owner_def split: option.splits)
  have w: "\<And>method action. white_list_request env method did data db action
              = finish db (action doc address)"
    using white_list_request_authorized [OF assms(1-3)] r by simp
  from assms(4) r have g: "getitem doc ''accesssWhiteList'' = Some (JList wl)"
    by (simp add: white_list_of_def)
  show ?thesis
    using g assms(5) unfolding add_access_white_list_def w by simp
qed

lemma delete_access_white_list_present:
  assumes "authorized_as_owner env db did data"
    and "getitem data ''address'' = Some address"
    and "is_address env address"
    and "white_list_of db did = Some (JList wl)"
    and "address \<in> set wl"
  shows "\<exists>db'. delete_access_white_list env did data db = (Return (Text ''Address removed.'') 200, db')
           \<and> white_list_of db' did = Some (JList (remove1 address wl))"
proof -
  from assms(1) obtain doc where r: "dao_get db did = Some doc"
    by (auto simp: authorized_as_owner_def split: option.splits)
  have w: "\<And>method action. white_list_request env method did data db action
              = finish db (action doc address)"
    using white_list_request_authorized [OF assms(1-3)] r by simp
  from assms(4) r have g: "getitem doc ''accesssWhiteList'' = Some (JList wl)"
    by (simp add: white_list_of_def)
  then obtain kvs where k: "doc = JObj kvs"
    by (auto simp: getitem_def split: json.splits)
  show ?thesis
    using g assms(5) unfolding delete_access_white_list_def w k
    by (simp add: py_remove_def setitem_def white_list_of_def dao_get_def dao_update_def
        getitem_def map_of_alist_put)
qed

lemma remove1_append_fresh: "a \<notin> set xs \<Longrightarrow> remove1 a (xs @ [a]) = xs"
  by (induction xs) auto

text \<open>
  Claim C7. For a registered document and an address that is not in its access list, an
  authorized WhitelistAdd of the address followed by an authorized WhitelistRemove of the
  same address restores the access list; and a second authorized WhitelistAdd of the
  address, now present, is answered with the conflict error (400, \<open>Address already in
  list\<close>) and leaves the store, and so the access list, unchanged.
\<close>

theorem whitelist_add_remove_roundtrip:
  assumes "white_list_of db did = Some (JList wl)"
    and "address \<notin> set wl"
    and "getitem data1 ''address'' = Some address" "is_address env1 address"
    and "authorized_as_owner env1 db did data1"
    and "handle env1 (WhitelistAdd did data1) db = (out1, db1)"
    and "getitem data2 ''address'' = Some address" "is_address env2 address"
    and "authorized_as_owner env2 db1 did data2"
    and "handle env2 (WhitelistRemove did data2) db1 = (out2, db2)"
    and "getitem data3 ''address'' = Some address" "is_address env3 address"
    and "authorized_as_owner env3 db1 did data3"
    and "handle env3 (WhitelistAdd did data3) db1 = (out3, db3)"
  shows "out1 = Return (Text ''Address added.'') 200
       \<and> out2 = Return (Text ''Address removed.'') 200
       \<and> white_list_of db2 did = Some (JList wl)
       \<and> out3 = Return (Text ''Address already in list'') 400
       \<and> db3 = db1
       \<and> white_list_of db3 did = Some (JList (wl @ [address]))"
proof -
  from add_access_white_list_fresh [OF assms(5,3,4,1,2)] assms(6)
  have 1: "out1 = Return (Text ''Address added.'') 200"
    and wl1: "white_list_of db1 did = Some (JList (wl @ [address]))"
    by auto
  have mem: "address \<in> set (wl @ [address])" by simp
  from delete_access_white_list_present [OF assms(9,7,8) wl1 mem] assms(10)
  have 2: "out2 = Return (Text ''Address removed.'') 200"
    and wl2: "white_list_of db2 did = Some (JList (remove1 address (wl @ [address])))"
    by auto
  from add_access_white_list_present [OF assms(13,11,12) wl1 mem] assms(14)
  have 3: "out3 = Return (Text ''Address already in list'') 400" and db3: "db3 = db1"
    by auto
  show ?thesis
    using 1 2 3 db3 wl1 wl2 assms(2) by (simp add: remove1_append_fresh)
qed

theorem whitelist_add_remove_roundtrip_witness:
  "white_list_of example_db example_did = Some (JList [])
   \<and> authorized_as_owner example_env example_db example_did example_white_list_payload
   \<and> authorized_as_owner example_env
         (snd (handle example_env (WhitelistAdd example_did example_white_list_payload) example_db))
         example_did example_white_list_payload
   \<and> fst (handle example_env (WhitelistAdd example_did example_white_list_payload) example_db)
       = Return (Text ''Address added.'') 200
   \<and> white_list_of
         (snd (handle example_env (WhitelistRemove example_did example_white_list_payload)
            (snd (handle example_env (WhitelistAdd example_did example_white_list_payload) example_db))))
         example_did
       = Some (JList [])
   \<and> handle example_env (WhitelistAdd example_did example_white_list_payload)
         (snd (handle example_env (WhitelistAdd example_did example_white_list_payload) example_db))
       = (Return (Text ''Address already in list'') 400,
          snd (handle example_env (WhitelistAdd example_did example_white_list_payload) example_db))"
proof -
  let ?data = example_white_list_payload
  let ?db1 = "snd (handle example_env (WhitelistAdd example_did ?data) example_db)"
  have wl: "white_list_of example_db example_did = Some (JList [])"
    by (simp add: example_defs value_defs helper_defs)
  have fresh: "JStr example_stranger \<notin> set []" by simp
  have addr: "getitem ?data ''address'' = Some (JStr example_stranger)"
    by (simp add: example_white_list_payload_def signed_by_def getitem_def)
  have valid: "is_address example_env (JStr example_stranger)"
    by (simp add: is_address_def example_env_def example_stranger_def)
  have auth: "authorized_as_owner example_env example_db example_did ?data"
    by (simp add: example_white_list_payload_def example_defs value_defs helper_defs)
  have auth1: "authorized_as_owner example_env ?db1 example_did ?data"
    by (simp add: example_white_list_payload_def example_defs value_defs helper_defs handler_defs)
  have add: "handle example_env (WhitelistAdd example_did ?data) example_db
               = (fst (handle example_env (WhitelistAdd example_did ?data) example_db), ?db1)"
    by simp
  have del: "handle example_env (WhitelistRemove example_did ?data) ?db1
               = (fst (handle example_env (WhitelistRemove example_did ?data) ?db1),
                  snd (handle example_env (WhitelistRemove example_did ?data) ?db1))"
    by simp
  have again: "handle example_env (WhitelistAdd example_did ?data) ?db1
               = (fst (handle example_env (WhitelistAdd example_did ?data) ?db1),
                  snd (handle example_env (WhitelistAdd example_did ?data) ?db1))"
    by simp
  from whitelist_add_remove_roundtrip
    [OF wl fresh addr valid auth add addr valid auth1 del addr valid auth1 again]
  show ?thesis
    using wl auth auth1 by (metis prod.collapse)
qed

subsection \<open>Paths\<close>

lemma getitem_setitem_eq: "setitem obj k v = Some obj' \<Longrightarrow> getitem obj' k = Some v"
  by (simp add: getitem_setitem)

lemma getitem_setitem_neq:
  "setitem obj k v = Some obj' \<Longrightarrow> k' \<noteq> k \<Longrightarrow> getitem obj' k' = getitem obj k'"
  by (simp add: getitem_setitem)

lemma setitem_dict: "is_dict obj \<Longrightarrow> \<exists>obj'. setitem obj k v = Some obj'"
  by (simp add: setitem_Some_iff)

lemma set_path_Cons:
  "set_path obj (k # ks) v =
     (if ks = [] then setitem obj k v
      else (case getitem obj k of
              None \<Rightarrow> None
            | Some sub \<Rightarrow>
                (case set_path sub ks v of None \<Rightarrow> None | Some sub' \<Rightarrow> setitem obj k sub')))"
  by (cases ks) (auto split: option.splits)

lemma get_set_path_same: "set_path obj p v = Some obj' \<Longrightarrow> get_path obj' p = Some v"
proof (induction p arbitrary: obj obj')
  case Nil
  then show ?case by simp
next
  case (Cons k ks)
  show ?case
  proof (cases "ks = []")
    case True
    with Cons.prems show ?thesis by (simp add: getitem_setitem_eq)
  next
    case False
    with Cons.prems obtain sub sub' where
      "getitem obj k = Some sub" "set_path sub ks v = Some sub'" "setitem obj k sub' = Some obj'"
      by (auto simp: set_path_Cons split: option.splits)
    with Cons.IH [of sub sub'] show ?thesis by (simp add: getitem_setitem_eq)
  qed
qed

lemma get_set_path_other:
  "set_path obj p v = Some obj' \<Longrightarrow> \<not> is_prefix p q \<Longrightarrow> \<not> is_prefix q p
     \<Longrightarrow> get_path obj' q = get_path obj q"
proof (induction p arbitrary: obj obj' q)
  case Nil
  then show ?case by simp
next
  case (Cons k ks)
  from Cons.prems(3) obtain k' qs where q: "q = k' # qs" by (cases q) auto
  show ?case
  proof (cases "k' = k")
    case False
    have "getitem obj' k' = getitem obj k'"
    proof (cases "ks = []")
      case True
      with Cons.prems(1) False show ?thesis by (simp add: getitem_setitem_neq)
    next
      case nonempty: False
      with Cons.prems(1) obtain sub' where "setitem obj k sub' = Some obj'"
        by (auto simp: set_path_Cons split: option.splits)
      with False show ?thesis by (simp add: getitem_setitem_neq)
    qed
    then show ?thesis by (simp add: q)
  next
    case True
    with Cons.prems(2,3) q have np: "\<not> is_prefix ks qs" "\<not> is_prefix qs ks" by auto
    then have "ks \<noteq> []" by (cases ks) auto
    with Cons.prems(1) obtain sub sub' where
      s: "getitem obj k = Some sub" "set_path sub ks v = Some sub'" "setitem obj k sub' = Some obj'"
      by (auto simp: set_path_Cons split: option.splits)
    from Cons.IH [OF s(2) np] s(1,3) True show ?thesis
      by (simp add: q getitem_setitem_eq)
  qed
qed

lemma set_path_getitem_other:
  assumes "set_path obj (k # ks) v = Some obj'" "k' \<noteq> k"
  shows "getitem obj' k' = getitem obj k'"
  using get_set_path_other [OF assms(1), of "[k']"] assms(2)
  by (auto split: option.splits)

lemma set_path_is_dict: "set_path obj p v = Some obj' \<Longrightarrow> is_dict obj \<and> is_dict obj'"
  by (cases "(obj, p, v)" rule: set_path.cases)
     (auto simp: setitem_def is_dict_def getitem_def split: json.splits option.splits)

lemma set_path_Some:
  "get_path obj p = Some d \<Longrightarrow> is_dict d \<Longrightarrow> \<exists>obj'. set_path obj (p @ [k]) v = Some obj'"
proof (induction p arbitrary: obj)
  case Nil
  then show ?case by (simp add: setitem_dict)
next
  case (Cons a p)
  from Cons.prems obtain sub where s: "getitem obj a = Some sub" "get_path sub p = Some d"
    by (auto split: option.splits)
  from Cons.IH [OF s(2) Cons.prems(2)] obtain sub' where "set_path sub (p @ [k]) v = Some sub'"
    by blast
  moreover from s(1) have "is_dict obj" by (rule getitem_Some_is_dict)
  then obtain obj' where "setitem obj a sub' = Some obj'"
    using setitem_dict by blast
  ultimately show ?case
    using s(1) by (simp add: set_path_Cons)
qed

lemma type_is_metadata_eq:
  "type_is_metadata s = (if has_type s then Some (is_metadata s) else None)"
  by (cases "getitem s ''type''") (simp_all add: type_is_metadata_def has_type_def is_metadata_def)

lemma is_metadata_cong:
  "getitem s' ''type'' = getitem s ''type'' \<Longrightarrow> is_metadata s' = is_metadata s"
  by (simp add: is_metadata_def)

lemma has_type_cong:
  "getitem s' ''type'' = getitem s ''type'' \<Longrightarrow> has_type s' = has_type s"
  by (simp add: has_type_def)

section \<open>TransferOwnership\<close>

lemma owner_of_shape:
  assumes "owner_of doc = Some owner"
  shows "\<exists>k rest. getitem doc ''publicKey'' = Some (JList (k # rest)) \<and> getitem k ''owner'' = Some owner"
proof -
  from assms obtain keys k where
    keys: "getitem doc ''publicKey'' = Some keys" and k: "getindex keys 0 = Some k"
    and o: "getitem k ''owner'' = Some owner"
    by (auto simp: owner_of_def split: option.splits)
  from k o obtain xs where "keys = JList xs" "0 < length xs" "k = xs ! 0"
    by (auto simp: getindex_def getitem_def split: json.splits if_splits)
  then obtain rest where "keys = JList (k # rest)" by (cases xs) auto
  with keys o show ?thesis by blast
qed

lemma set_owner_Some:
  assumes "owner_of doc = Some owner"
  shows "\<exists>doc'. set_owner doc v = Some doc' \<and> owner_of doc' = Some v
           \<and> (\<forall>key. key \<noteq> ''publicKey'' \<longrightarrow> getitem doc' key = getitem doc key)"
proof -
  from owner_of_shape [OF assms] obtain k rest where
    keys: "getitem doc ''publicKey'' = Some (JList (k # rest))" and o: "getitem k ''owner'' = Some owner"
    by blast
  from o have "is_dict k" by (rule getitem_Some_is_dict)
  then obtain k' where k': "setitem k ''owner'' v = Some k'"
    using setitem_dict by blast
  from keys have "is_dict doc" by (rule getitem_Some_is_dict)
  then obtain doc' where doc': "setitem doc ''publicKey'' (JList (k' # rest)) = Some doc'"
    using setitem_dict by blast
  have s: "set_owner doc v = Some doc'"
    using keys k' doc' by (simp add: set_owner_def modify_item_def modify_index_def)
  have "getitem doc' ''publicKey'' = Some (JList (k' # rest))"
    using doc' by (rule getitem_setitem_eq)
  moreover have "getitem k' ''owner'' = Some v"
    using k' by (rule getitem_setitem_eq)
  ultimately have "owner_of doc' = Some v"
    by (simp add: owner_of_def getindex_def)
  with s doc' show ?thesis
    by (auto simp: getitem_setitem_neq)
qed

lemma owner_of_cong:
  "getitem doc' ''publicKey'' = getitem doc ''publicKey'' \<Longrightarrow> owner_of doc' = owner_of doc"
  by (simp add: owner_of_def)

text \<open>
  Claim C6. For a registered document and a TransferOwnership request that is authorized
  as owner: if \<open>newOwner\<close> is not a syntactically valid address, or equals the current
  owner under the case-insensitive comparison of addresses, the request is rejected (400)
  and the store is not changed; otherwise the request succeeds, \<open>publicKey[0].owner\<close> of
  the stored document is \<open>newOwner\<close> and its \<open>updated\<close> is the current time.
\<close>

theorem transfer_ownership_effect:
  assumes "dao_get db did = Some doc"
    and "authorized_as_owner env db did data"
    and "getitem data ''newOwner'' = Some new_owner"
  shows "\<exists>owner. owner_of doc = Some owner \<and>
     (if \<not> is_address env new_owner \<or> compare_eth_addresses owner new_owner
      then \<exists>msg. transfer_ownership env did data db = (Return (Text msg) 400, db)
      else \<exists>doc'. transfer_ownership env did data db
                    = (Return (Text ''Asset successfully transferred'') 200, db(JStr did \<mapsto> doc'))
                  \<and> owner_of doc' = Some new_owner
                  \<and> getitem doc' ''updated'' = Some (get_timestamp env))"
proof -
  from assms(1,2) obtain updated signature where
    u: "getitem data ''updated'' = Some updated" and s: "getitem data ''signature'' = Some signature"
    and c: "can_update_did env doc updated signature"
    by (auto simp: authorized_as_owner_def split: option.splits)
  from c obtain owner where owner: "owner_of doc = Some owner"
    by (auto simp: can_update_did_def split: option.splits)
  have req: "check_required_attributes [''signature'', ''updated'', ''newOwner''] data
               ''transferownership'' = Some None"
    using u s assms(3) by (intro check_required_attributes_pass) auto
  show ?thesis
  proof (cases "\<not> is_address env new_owner \<or> compare_eth_addresses owner new_owner")
    case True
    then have "\<exists>msg. transfer_ownership env did data db = (Return (Text msg) 400, db)"
      using req u s c owner assms(1,3) by (auto simp: transfer_ownership_def)
    with True owner show ?thesis by simp
  next
    case False
    from set_owner_Some [OF owner, of new_owner] obtain r1 where
      r1: "set_owner doc new_owner = Some r1" "owner_of r1 = Some new_owner"
      by blast
    from r1(1) have "is_dict r1"
      by (auto simp: set_owner_def modify_item_def setitem_def is_dict_def
          split: option.splits json.splits)
    then obtain r2 where r2: "setitem r1 ''updated'' (get_timestamp env) = Some r2"
      using setitem_dict by blast
    have "getitem r2 ''publicKey'' = getitem r1 ''publicKey''"
      using r2 by (simp add: getitem_setitem_neq)
    then have o2: "owner_of r2 = Some new_owner"
      using r1(2) owner_of_cong [of r2 r1] by simp
    have u2: "getitem r2 ''updated'' = Some (get_timestamp env)"
      using r2 by (rule getitem_setitem_eq)
    have "transfer_ownership env did data db
            = (Return (Text ''Asset successfully transferred'') 200, db(JStr did \<mapsto> r2))"
      using False req u s c owner assms(1,3) r1(1) r2
      by (simp add: transfer_ownership_def dao_update_def)
    then have "\<exists>doc'. transfer_ownership env did data db
                    = (Return (Text ''Asset successfully transferred'') 200, db(JStr did \<mapsto> doc'))
                  \<and> owner_of doc' = Some new_owner
                  \<and> getitem doc' ''updated'' = Some (get_timestamp env)"
      using o2 u2 by blast
    with False owner show ?thesis by simp
  qed
qed

theorem transfer_ownership_effect_witness:
  "dao_get example_db example_did = Some example_ddo
   \<and> authorized_as_owner example_env example_db example_did (example_transfer_payload example_stranger)
   \<and> fst (transfer_ownership example_env example_did (example_transfer_payload example_stranger) example_db)
       = Return (Text ''Asset successfully transferred'') 200
   \<and> Option.bind
         (snd (transfer_ownership example_env example_did (example_transfer_payload example_stranger)
                 example_db) (JStr example_did)) owner_of
       = Some (JStr example_stranger)
   \<and> Option.bind
         (snd (transfer_ownership example_env example_did (example_transfer_payload example_stranger)
                 example_db) (JStr example_did)) (\<lambda>doc. getitem doc ''updated'')
       = Some (JStr ''2021-06-15T12:30:45Z'')
   \<and> status_of (fst (transfer_ownership example_env example_did
                       (example_transfer_payload (map lower_char example_owner)) example_db))
       = Some 400
   \<and> snd (transfer_ownership example_env example_did
             (example_transfer_payload (map lower_char example_owner)) example_db)
       = example_db"
proof -
  let ?new = "example_transfer_payload example_stranger"
  let ?same = "example_transfer_payload (map lower_char example_owner)"
  have reg: "dao_get example_db example_did = Some example_ddo"
    by (simp add: dao_get_def example_db_def)
  have owner: "owner_of example_ddo = Some (JStr example_owner)"
    by (simp add: example_defs value_defs owner_of_def)
  have now: "get_timestamp example_env = JStr ''2021-06-15T12:30:45Z''"
    by (simp add: example_env_def helper_defs)
  have auth_new: "authorized_as_owner example_env example_db example_did ?new"
    by (simp add: example_transfer_payload_def example_defs value_defs helper_defs)
  have auth_same: "authorized_as_owner example_env example_db example_did ?same"
    by (simp add: example_transfer_payload_def example_defs value_defs helper_defs)
  have new_owner: "getitem ?new ''newOwner'' = Some (JStr example_stranger)"
    by (simp add: example_transfer_payload_def signed_by_def getitem_def)
  have same_owner: "getitem ?same ''newOwner'' = Some (JStr (map lower_char example_owner))"
    by (simp add: example_transfer_payload_def signed_by_def getitem_def)
  have valid: "is_address example_env (JStr example_stranger)"
    by (simp add: is_address_def example_env_def example_stranger_def)
  have differs: "\<not> compare_eth_addresses (JStr example_owner) (JStr example_stranger)"
    by (simp add: compare_eth_addresses_def example_owner_def example_stranger_def lower_char_def)
  have equal: "compare_eth_addresses (JStr example_owner) (JStr (map lower_char example_owner))"
    by (simp add: compare_eth_addresses_def example_owner_def lower_char_def)
  from transfer_ownership_effect [OF reg auth_new new_owner] owner valid differs now
  obtain doc' where
    "transfer_ownership example_env example_did ?new example_db
       = (Return (Text ''Asset successfully transferred'') 200, example_db(JStr example_did \<mapsto> doc'))"
    "owner_of doc' = Some (JStr example_stranger)"
    "getitem doc' ''updated'' = Some (JStr ''2021-06-15T12:30:45Z'')"
    by auto
  moreover
  from transfer_ownership_effect [OF reg auth_same same_owner] owner equal
  obtain msg where
    "transfer_ownership example_env example_did ?same example_db = (Return (Text msg) 400, example_db)"
    by auto
  ultimately show ?thesis
    using reg auth_new by (simp add: status_of_def)
qed

section \<open>Create\<close>

lemma get_set_path_parent:
  "get_path obj p = Some (JObj kvs) \<Longrightarrow> set_path obj (p @ [k]) v = Some obj'
     \<Longrightarrow> get_path obj' p = Some (JObj (alist_put k v kvs))"
proof (induction p arbitrary: obj obj')
  case Nil
  then show ?case by (simp add: setitem_def)
next
  case (Cons a p)
  from Cons.prems(1) obtain sub where s: "getitem obj a = Some sub" "get_path sub p = Some (JObj kvs)"
    by (auto split: option.splits)
  from Cons.prems(2) s(1) obtain sub' where
    s': "set_path sub (p @ [k]) v = Some sub'" "setitem obj a sub' = Some obj'"
    by (auto simp: set_path_Cons split: option.splits)
  from Cons.IH [OF s(2) s'(1)] s'(2) show ?case
    by (simp add: getitem_setitem_eq)
qed

lemma register_service_other:
  "register_service env s = Inr s' \<Longrightarrow> \<not> is_metadata s \<Longrightarrow> s' = s"
  by (auto simp: register_service_def type_is_metadata_eq split: if_splits)

lemma register_service_metadata:
  assumes "register_service env s = Inr s'" "is_metadata s"
  shows "getitem s' ''type'' = getitem s ''type''"
    and "get_path s' [''attributes'', ''curation''] = Some initial_curation"
proof -
  from assms have "has_type s" by (simp add: is_metadata_def has_type_def)
  with assms obtain m where
    m: "raising m = Inr s'" and m_def: "m = do {
           dc \<leftarrow> get_path s [''attributes'', ''main'', ''dateCreated''];
           dc' \<leftarrow> format_timestamp env dc;
           s1 \<leftarrow> set_path s [''attributes'', ''main'', ''dateCreated''] dc';
           s2 \<leftarrow> set_path s1 [''attributes'', ''main'', ''datePublished''] (get_timestamp env);
           s3 \<leftarrow> set_path s2 [''attributes'', ''curation''] (JObj []);
           s4 \<leftarrow> set_path s3 [''attributes'', ''curation'', ''rating''] (JFloat zero_float);
           s5 \<leftarrow> set_path s4 [''attributes'', ''curation'', ''numVotes''] (JInt 0);
           set_path s5 [''attributes'', ''curation'', ''isListed''] (JBool True)
         }"
    unfolding register_service_def type_is_metadata_eq
    by (auto simp: bind_out_def split: if_splits sum.splits)
  from m have "m = Some s'" by (cases m) simp_all
  then obtain dc' s1 s2 s3 s4 s5 where
    s1: "set_path s [''attributes'', ''main'', ''dateCreated''] dc' = Some s1"
    and s2: "set_path s1 [''attributes'', ''main'', ''datePublished''] (get_timestamp env) = Some s2"
    and s3: "set_path s2 [''attributes'', ''curation''] (JObj []) = Some s3"
    and s4: "set_path s3 [''attributes'', ''curation'', ''rating''] (JFloat zero_float) = Some s4"
    and s5: "set_path s4 [''attributes'', ''curation'', ''numVotes''] (JInt 0) = Some s5"
    and s6: "set_path s5 [''attributes'', ''curation'', ''isListed''] (JBool True) = Some s'"
    unfolding m_def by (auto simp: bind_eq_Some_conv)
  have t: "\<And>a b p v. set_path a (''attributes'' # p) v = Some b
             \<Longrightarrow> getitem b ''type'' = getitem a ''type''"
    using set_path_getitem_other [where k = "''attributes''" and k' = "''type''"] by simp
  show "getitem s' ''type'' = getitem s ''type''"
    using t [OF s1] t [OF s2] t [OF s3] t [OF s4] t [OF s5] t [OF s6] by simp
  have c3: "get_path s3 [''attributes'', ''curation''] = Some (JObj [])"
    using s3 by (rule get_set_path_same)
  have c4: "get_path s4 [''attributes'', ''curation''] = Some (JObj [(''rating'', JFloat zero_float)])"
    using get_set_path_parent [OF c3, of "''rating''"] s4 by simp
  have c5: "get_path s5 [''attributes'', ''curation'']
              = Some (JObj [(''rating'', JFloat zero_float), (''numVotes'', JInt 0)])"
    using get_set_path_parent [OF c4, of "''numVotes''"] s5 by simp
  show "get_path s' [''attributes'', ''curation''] = Some initial_curation"
    using get_set_path_parent [OF c5, of "''isListed''"] s6 by (simp add: initial_curation_def)
qed

lemma register_service_curated:
  assumes "register_service env s = Inr s'"
  shows "has_type s' \<and> curated s'"
proof (cases "is_metadata s")
  case True
  from register_service_metadata [OF assms True] True show ?thesis
    by (simp add: curated_def has_type_def is_metadata_def)
next
  case False
  with register_service_other [OF assms] assms show ?thesis
    by (auto simp: curated_def register_service_def type_is_metadata_eq split: if_splits)
qed

lemma register_services_curated:
  "register_services env xs = Inr ys \<Longrightarrow> list_all has_type ys \<and> list_all curated ys"
proof (induction xs arbitrary: ys)
  case Nil
  then show ?case by simp
next
  case (Cons s xs)
  from Cons.prems obtain s' ys' where
    s': "register_service env s = Inr s'" and ys': "register_services env xs = Inr ys'"
    and ys: "ys = s' # ys'"
    by (auto simp: bind_out_def split: sum.splits)
  from register_service_curated [OF s'] Cons.IH [OF ys'] ys show ?case by simp
qed

lemma first_metadata_eq:
  "list_all has_type xs \<Longrightarrow>
   first_metadata xs = Some (case filter is_metadata xs of [] \<Rightarrow> JNull | m # _ \<Rightarrow> m)"
  by (induction xs) (auto simp: type_is_metadata_eq)

lemma reordered_head:
  assumes "list_all has_type xs"
    and "reorder_services xs = Some reordered"
    and "get_metadata (JList reordered) = Some m"
    and "getitem m ''attributes'' = Some attributes"
  shows "\<exists>rest. reordered = m # rest \<and> is_metadata m \<and> m \<in> set xs"
proof -
  let ?md = "filter is_metadata xs" and ?other = "filter (\<lambda>s. \<not> is_metadata s) xs"
  from assms(1,2) have r: "reordered = ?md @ ?other"
    by (simp add: reorder_services_eq)
  then have ht: "list_all has_type reordered"
    using assms(1) by (auto simp: list_all_iff)
  have f: "filter is_metadata reordered = ?md"
    unfolding r by (induction xs) auto
  from assms(3) ht have m: "m = (case ?md of [] \<Rightarrow> JNull | m # _ \<Rightarrow> m)"
    by (simp add: get_metadata_def py_iter_def first_metadata_eq f)
  from assms(4) have "m \<noteq> JNull" by (auto simp: getitem_def)
  with m obtain more where md: "?md = m # more" by (cases ?md) auto
  then have "m \<in> set ?md" by simp
  then have "is_metadata m" "m \<in> set xs" by auto
  with r md show ?thesis by simp
qed

lemma check_required_attributes_status:
  "check_required_attributes required data method = Some (Some (msg, status)) \<Longrightarrow> status = 400"
  by (auto simp: check_required_attributes_def split: json.splits if_splits option.splits)

lemma check_no_urls_in_files_status:
  "check_no_urls_in_files main method = Some (Some (msg, status)) \<Longrightarrow> status = 400"
  by (auto simp: check_no_urls_in_files_def split: option.splits bool.splits)

lemma validate_date_format_status:
  "validate_date_format env date = Some (msg, status) \<Longrightarrow> status = 400"
  by (auto simp: validate_date_format_def split: json.splits option.splits)

lemma checked_Inl_status:
  "checked c = Inl out \<Longrightarrow> \<exists>msg status. c = Some (msg, status) \<and> out = Return (Text msg) status"
  by (cases c) (auto simp: checked_def)

lemma register_services_strings:
  "register_services env (map f xs) = Inr ys \<Longrightarrow> (\<And>x. \<exists>s. f x = JStr s) \<Longrightarrow> xs = []"
proof (cases xs)
  case Nil
  then show ?thesis by simp
next
  case (Cons x xs')
  assume str: "\<And>x. \<exists>s. f x = JStr s" and r: "register_services env (map f xs) = Inr ys"
  from str obtain s where "f x = JStr s" by blast
  then have "register_service env (f x) = Inl Uncaught"
    by (simp add: register_service_def type_is_metadata_def getitem_def)
  with r Cons show ?thesis by simp
qed

lemma py_iter_rebuild:
  assumes "py_iter services = Some items" "register_services env items = Inr items'"
  shows "py_iter (rebuild services items') = Some items'"
proof (cases services)
  case (JList xs)
  then show ?thesis by (simp add: rebuild_def py_iter_def)
next
  case (JObj kvs)
  with assms(1) have items: "items = map (\<lambda>p. JStr (fst p)) kvs"
    by (simp add: py_iter_def)
  with assms(2) have "kvs = []"
    by (auto dest: register_services_strings)
  with items assms(2) JObj show ?thesis
    by (simp add: rebuild_def py_iter_def)
next
  case (JStr cs)
  with assms(1) have items: "items = map (\<lambda>c. JStr [c]) cs"
    by (simp add: py_iter_def)
  with assms(2) have "cs = []"
    by (auto dest: register_services_strings)
  with items assms(2) JStr show ?thesis
    by (simp add: rebuild_def py_iter_def)
qed (use assms(1) in \<open>simp_all add: py_iter_def\<close>)

lemma initial_white_list_absent:
  "is_dict data \<Longrightarrow> getitem data ''accesssWhiteList'' = None
     \<Longrightarrow> initial_white_list data = Some (JList [])"
  by (cases data)
     (auto simp: initial_white_list_def py_in_def getitem_def is_dict_def map_of_eq_None_iff)

lemma register_service_Inl_status:
  "register_service env s = Inl (Return body status) \<Longrightarrow> status = 400"
  by (auto simp: register_service_def bind_out_def raising_def
      split: if_splits option.splits sum.splits)

lemma register_services_Inl_status:
  "register_services env xs = Inl (Return body status) \<Longrightarrow> status = 400"
proof (induction xs)
  case Nil
  then show ?case by simp
next
  case (Cons s xs)
  then show ?case
    by (auto simp: bind_out_def dest: register_service_Inl_status split: sum.splits)
qed

lemma register_steps:
  assumes "register env data db = (Return body 201, db')"
  shows "\<exists>created ts r1 r2 wl r3 services items items' reordered r4 m attributes ident.
      is_dict data
    \<and> getitem data ''created'' = Some created \<and> format_timestamp env created = Some ts
    \<and> setitem data ''created'' ts = Some r1 \<and> setitem r1 ''updated'' ts = Some r2
    \<and> initial_white_list data = Some wl \<and> setitem r2 ''accesssWhiteList'' wl = Some r3
    \<and> getitem r3 ''service'' = Some services \<and> py_iter services = Some items
    \<and> register_services env items = Inr items'
    \<and> Option.bind (py_iter (rebuild services items')) reorder_services = Some reordered
    \<and> setitem r3 ''service'' (JList reordered) = Some r4
    \<and> get_metadata (JList reordered) = Some m \<and> getitem m ''attributes'' = Some attributes
    \<and> getitem data ''id'' = Some ident
    \<and> body = Doc (sanitize_record r4) \<and> db' = dao_register db r4 ident"
  using assms unfolding register_def
  by (auto simp: bind_out_def raising_def caught_def checked_def finish_def bind_eq_Some_conv
      dest!: check_required_attributes_status check_no_urls_in_files_status
        validate_date_format_status register_services_Inl_status
      split: if_splits option.splits sum.splits prod.splits)

text \<open>
  Claim C2. For every Create payload that \<open>register\<close> accepts (status 201), the stored
  document has a service of type metadata at index 0 of \<open>service\<close>, its \<open>updated\<close>
  equals its \<open>created\<close>, which is the normalized \<open>created\<close> of the payload, its
  \<open>accesssWhiteList\<close> is the empty list when the payload has no such field, and the
  curation of the metadata service is \<open>{rating: 0.0, numVotes: 0, isListed: true}\<close>.
\<close>

theorem register_stores_canonical_document:
  assumes "register env data db = (Return body 201, db')"
  shows "\<exists>ident doc created ts m rest.
      getitem data ''id'' = Some ident \<and> db' = db(ident \<mapsto> doc) \<and> body = Doc (sanitize_record doc)
    \<and> getitem doc ''service'' = Some (JList (m # rest)) \<and> is_metadata m
    \<and> get_path m [''attributes'', ''curation''] = Some initial_curation
    \<and> getitem data ''created'' = Some created \<and> format_timestamp env created = Some ts
    \<and> getitem doc ''created'' = Some ts \<and> getitem doc ''updated'' = Some ts
    \<and> (getitem data ''accesssWhiteList'' = None \<longrightarrow> getitem doc ''accesssWhiteList'' = Some (JList []))"
proof -
  from register_steps [OF assms] obtain created ts r1 r2 wl r3 services items items' reordered r4
      m attributes ident where
    dict: "is_dict data"
    and created: "getitem data ''created'' = Some created" "format_timestamp env created = Some ts"
    and r1: "setitem data ''created'' ts = Some r1"
    and r2: "setitem r1 ''updated'' ts = Some r2"
    and wl: "initial_white_list data = Some wl"
    and r3: "setitem r2 ''accesssWhiteList'' wl = Some r3"
    and services: "getitem r3 ''service'' = Some services" "py_iter services = Some items"
    and loop: "register_services env items = Inr items'"
    and reorder: "Option.bind (py_iter (rebuild services items')) reorder_services = Some reordered"
    and r4: "setitem r3 ''service'' (JList reordered) = Some r4"
    and m: "get_metadata (JList reordered) = Some m" "getitem m ''attributes'' = Some attributes"
    and ident: "getitem data ''id'' = Some ident"
    and out: "body = Doc (sanitize_record r4)" "db' = dao_register db r4 ident"
    by blast
  from register_services_curated [OF loop]
  have typed: "list_all has_type items'" and cur: "list_all curated items'" by simp_all
  from reorder py_iter_rebuild [OF services(2) loop]
  have "reorder_services items' = Some reordered" by simp
  from reordered_head [OF typed this m] obtain rest where
    head: "reordered = m # rest" "is_metadata m" "m \<in> set items'"
    by blast
  from cur head(2,3) have curation: "get_path m [''attributes'', ''curation''] = Some initial_curation"
    by (auto simp: list_all_iff curated_def)
  have service: "getitem r4 ''service'' = Some (JList (m # rest))"
    using r4 head(1) by (simp add: getitem_setitem_eq)
  have c: "getitem r4 ''created'' = Some ts"
    using r1 r2 r3 r4 by (simp add: getitem_setitem)
  have u: "getitem r4 ''updated'' = Some ts"
    using r2 r3 r4 by (simp add: getitem_setitem)
  have w: "getitem r4 ''accesssWhiteList'' = Some wl"
    using r3 r4 by (simp add: getitem_setitem)
  have "getitem data ''accesssWhiteList'' = None \<longrightarrow> wl = JList []"
    using wl initial_white_list_absent [OF dict] by auto
  with w have absent:
    "getitem data ''accesssWhiteList'' = None \<longrightarrow> getitem r4 ''accesssWhiteList'' = Some (JList [])"
    by simp
  show ?thesis
    using ident out service head(2) curation created c u absent
    by (auto simp: dao_register_def)
qed

theorem register_stores_canonical_document_witness:
  "register example_env example_payload Map.empty = (Return (Doc example_ddo) 201, example_db)
   \<and> getitem example_ddo ''service'' = Some (JList [example_stored_metadata_service, example_access_service])
   \<and> is_metadata example_stored_metadata_service
   \<and> get_path example_stored_metadata_service [''attributes'', ''curation''] = Some initial_curation
   \<and> format_timestamp example_env (JStr ''2020-01-01T00:00:00Z'') = Some (JStr ''2020-01-01T00:00:00Z'')
   \<and> getitem example_ddo ''created'' = Some (JStr ''2020-01-01T00:00:00Z'')
   \<and> getitem example_ddo ''updated'' = Some (JStr ''2020-01-01T00:00:00Z'')
   \<and> getitem example_payload ''accesssWhiteList'' = None
   \<and> getitem example_ddo ''accesssWhiteList'' = Some (JList [])"
proof -
  have run: "register example_env example_payload Map.empty = (Return (Doc example_ddo) 201, example_db)"
    by (simp add: example_defs value_defs helper_defs handler_defs)
  have stored: "example_db (JStr example_did) = Some example_ddo"
    by (simp add: example_db_def)
  have ident: "getitem example_payload ''id'' = Some (JStr example_did)"
    by (simp add: example_payload_def example_payload_fields_def getitem_def)
  have created: "getitem example_payload ''created'' = Some (JStr ''2020-01-01T00:00:00Z'')"
    by (simp add: example_payload_def example_payload_fields_def getitem_def)
  have absent: "getitem example_payload ''accesssWhiteList'' = None"
    by (simp add: example_payload_def example_payload_fields_def getitem_def)
  have service: "getitem example_ddo ''service''
                   = Some (JList [example_stored_metadata_service, example_access_service])"
    by (simp add: example_ddo_def example_ddo_fields_def getitem_def)
  from register_stores_canonical_document [OF run] ident created absent
  obtain doc ts m rest where
    "example_db = Map.empty(JStr example_did \<mapsto> doc)"
    "getitem doc ''service'' = Some (JList (m # rest))" "is_metadata m"
    "get_path m [''attributes'', ''curation''] = Some initial_curation"
    "format_timestamp example_env (JStr ''2020-01-01T00:00:00Z'') = Some ts"
    "getitem doc ''created'' = Some ts" "getitem doc ''updated'' = Some ts"
    "getitem doc ''accesssWhiteList'' = Some (JList [])"
    by auto
  moreover from this(1) stored have "doc = example_ddo"
    by (metis fun_upd_same option.inject)
  moreover have "format_timestamp example_env (JStr ''2020-01-01T00:00:00Z'')
                   = Some (JStr ''2020-01-01T00:00:00Z'')"
    by (simp add: example_env_def helper_defs)
  ultimately show ?thesis
    using run service absent by simp
qed

section \<open>FullUpdate\<close>

lemma update_steps:
  assumes "dao_get db did = Some old"
    and "update env ip did data db = (Return body 200, db')"
  shows "\<exists>created ts r1 r2 services reordered items r3.
      is_local ip
    \<and> getitem data ''created'' = Some created \<and> format_timestamp env created = Some ts
    \<and> setitem data ''created'' ts = Some r1 \<and> setitem r1 ''updated'' ts = Some r2
    \<and> getitem r2 ''service'' = Some services
    \<and> Option.bind (py_iter services) reorder_services = Some reordered
    \<and> modify_last_metadata (format_metadata_dates env) reordered = Some items
    \<and> setitem r2 ''service'' (JList items) = Some r3
    \<and> body = Doc (sanitize_record r3) \<and> db' = dao_update db r3 did"
  using assms unfolding update_def
  by (auto simp: bind_out_def raising_def caught_def checked_def finish_def bind_eq_Some_conv
      dest!: check_required_attributes_status check_no_urls_in_files_status
        validate_date_format_status
      split: if_splits option.splits sum.splits prod.splits)

text \<open>
  Claim C10. For every FullUpdate that succeeds (status 200) on a registered document, the
  \<open>updated\<close> field of the stored document is the normalized \<open>created\<close> timestamp of the
  submitted payload, as is its \<open>created\<close> field: neither the current time nor the
  \<open>updated\<close> value stored before enters. A FullUpdate can therefore move \<open>updated\<close>
  backwards in time.
\<close>

theorem full_update_sets_updated_to_created:
  assumes "dao_get db did = Some old"
    and "update env ip did data db = (Return body 200, db')"
  shows "\<exists>doc created ts.
      db' = db(JStr did \<mapsto> doc)
    \<and> getitem data ''created'' = Some created \<and> format_timestamp env created = Some ts
    \<and> getitem doc ''updated'' = Some ts \<and> getitem doc ''created'' = Some ts"
proof -
  from update_steps [OF assms] obtain created ts r1 r2 items r3 where
    created: "getitem data ''created'' = Some created" "format_timestamp env created = Some ts"
    and r1: "setitem data ''created'' ts = Some r1"
    and r2: "setitem r1 ''updated'' ts = Some r2"
    and r3: "setitem r2 ''service'' (JList items) = Some r3"
    and out: "db' = dao_update db r3 did"
    by blast
  have "getitem r3 ''updated'' = Some ts"
    using r2 r3 by (simp add: getitem_setitem)
  moreover have "getitem r3 ''created'' = Some ts"
    using r1 r2 r3 by (simp add: getitem_setitem)
  ultimately show ?thesis
    using created out by (auto simp: dao_update_def)
qed

theorem full_update_sets_updated_to_created_witness:
  "Option.bind (dao_get example_db_touched example_did) (\<lambda>doc. getitem doc ''updated'')
     = Some (JStr ''2021-06-15T12:30:45Z'')
   \<and> status_of (fst (update example_env ''127.0.0.1'' example_did example_ddo example_db_touched))
     = Some 200
   \<and> getitem example_ddo ''created'' = Some (JStr ''2020-01-01T00:00:00Z'')
   \<and> Option.bind
         (dao_get (snd (update example_env ''127.0.0.1'' example_did example_ddo example_db_touched))
            example_did)
         (\<lambda>doc. getitem doc ''updated'')
     = Some (JStr ''2020-01-01T00:00:00Z'')
   \<and> earlier example_env (JStr ''2020-01-01T00:00:00Z'') (JStr ''2021-06-15T12:30:45Z'')
   \<and> get_timestamp example_env = JStr ''2021-06-15T12:30:45Z''"
proof -
  let ?old = "JObj (alist_put ''updated'' (JStr ''2021-06-15T12:30:45Z'') example_ddo_fields)"
  have reg: "dao_get example_db_touched example_did = Some ?old"
    by (simp add: dao_get_def example_db_touched_def)
  have before: "getitem ?old ''updated'' = Some (JStr ''2021-06-15T12:30:45Z'')"
    by (simp add: example_ddo_fields_def getitem_def)
  have created: "getitem example_ddo ''created'' = Some (JStr ''2020-01-01T00:00:00Z'')"
    by (simp add: example_ddo_def example_ddo_fields_def getitem_def)
  have ts: "format_timestamp example_env (JStr ''2020-01-01T00:00:00Z'')
              = Some (JStr ''2020-01-01T00:00:00Z'')"
    by (simp add: example_env_def helper_defs)
  have now: "get_timestamp example_env = JStr ''2021-06-15T12:30:45Z''"
    by (simp add: example_env_def helper_defs)
  have moved: "earlier example_env (JStr ''2020-01-01T00:00:00Z'') (JStr ''2021-06-15T12:30:45Z'')"
    by (simp add: earlier_def datetime_less_def example_env_def)
  have ok: "status_of (fst (update example_env ''127.0.0.1'' example_did example_ddo example_db_touched))
              = Some 200"
    by (simp add: status_of_def example_db_touched_def example_defs value_defs helper_defs handler_defs)
  then obtain body where run:
    "update example_env ''127.0.0.1'' example_did example_ddo example_db_touched
       = (Return body 200,
          snd (update example_env ''127.0.0.1'' example_did example_ddo example_db_touched))"
    by (cases "update example_env ''127.0.0.1'' example_did example_ddo example_db_touched")
       (auto simp: status_of_def split: outcome.splits)
  from full_update_sets_updated_to_created [OF reg run] created ts
  obtain doc where
    "snd (update example_env ''127.0.0.1'' example_did example_ddo example_db_touched)
       = example_db_touched(JStr example_did \<mapsto> doc)"
    "getitem doc ''updated'' = Some (JStr ''2020-01-01T00:00:00Z'')"
    by auto
  then show ?thesis
    using reg before created ok moved now by (simp add: dao_get_def)
qed

lemma format_timestamp_signer:
  "format_timestamp (env\<lparr>recoverSigner := r\<rparr>) v = format_timestamp env v"
  by (simp add: format_timestamp_def split: json.splits)

lemma validate_date_format_signer:
  "validate_date_format (env\<lparr>recoverSigner := r\<rparr>) v = validate_date_format env v"
  by (simp add: validate_date_format_def split: json.splits)

lemma get_timestamp_signer:
  "get_timestamp (env\<lparr>recoverSigner := r\<rparr>) = get_timestamp env"
  by (simp add: get_timestamp_def)

lemma register_service_signer:
  "register_service (env\<lparr>recoverSigner := r\<rparr>) s = register_service env s"
  by (simp add: register_service_def format_timestamp_signer get_timestamp_signer cong: if_cong)

lemma register_services_signer:
  "register_services (env\<lparr>recoverSigner := r\<rparr>) xs = register_services env xs"
  by (induction xs) (simp_all add: register_service_signer)

lemma priced_asset_signer:
  "priced_asset (env\<lparr>recoverSigner := r\<rparr>) xs = priced_asset env xs"
  by (induction xs) (simp_all cong: if_cong option.case_cong bool.case_cong)

lemma format_metadata_dates_signer:
  "format_metadata_dates (env\<lparr>recoverSigner := r\<rparr>) = format_metadata_dates env"
  by (rule ext) (simp add: format_metadata_dates_def format_timestamp_signer)

lemma register_signer:
  "register (env\<lparr>recoverSigner := r\<rparr>) data db = register env data db"
  by (simp add: register_def register_services_signer format_timestamp_signer
      validate_date_format_signer cong: if_cong)

lemma update_signer:
  "update (env\<lparr>recoverSigner := r\<rparr>) ip did data db = update env ip did data db"
  by (simp add: update_def register_signer priced_asset_signer format_metadata_dates_signer
      format_timestamp_signer validate_date_format_signer
      cong: if_cong option.case_cong)

lemma update_not_local:
  "\<not> is_local ip \<Longrightarrow> update env ip did data db
     = (if is_dict data then Return (Text ''You have no rights'') 401 else Uncaught, db)"
  by (simp add: update_def)

text \<open>
  Claim C1, as the code has it. The code of \<open>update\<close> never calls \<open>_can_update_did\<close>:
  a caller at the local address replaces a registered document whatever the submitted
  \<open>updated\<close> and \<open>signature\<close> are. Here the document of \<open>example_owner\<close> is replaced,
  owner included, by a payload whose signature recovers to \<open>example_stranger\<close>.
\<close>

theorem full_update_without_owner_signature_counterexample:
  "dao_get example_db example_did = Some example_ddo
   \<and> owner_of example_ddo = Some (JStr example_owner)
   \<and> getitem example_takeover_payload ''updated'' = Some (JStr ''2020-01-01T00:00:05Z'')
   \<and> getitem example_takeover_payload ''signature'' = Some (JStr ''0xsigned-by-stranger'')
   \<and> \<not> can_update_did example_env example_ddo
         (JStr ''2020-01-01T00:00:05Z'') (JStr ''0xsigned-by-stranger'')
   \<and> status_of (fst (update example_env ''127.0.0.1'' example_did example_takeover_payload example_db))
       = Some 200
   \<and> Option.bind
         (dao_get (snd (update example_env ''127.0.0.1'' example_did example_takeover_payload example_db))
            example_did)
         owner_of
       = Some (JStr example_stranger)"
proof -
  have "dao_get example_db example_did = Some example_ddo"
    by (simp add: dao_get_def example_db_def)
  moreover have "owner_of example_ddo = Some (JStr example_owner)"
    by (simp add: example_defs value_defs owner_of_def)
  moreover have "getitem example_takeover_payload ''updated'' = Some (JStr ''2020-01-01T00:00:05Z'')"
    by (simp add: example_takeover_payload_def example_ddo_fields_def getitem_def)
  moreover have "getitem example_takeover_payload ''signature'' = Some (JStr ''0xsigned-by-stranger'')"
    by (simp add: example_takeover_payload_def example_ddo_fields_def getitem_def)
  moreover have "\<not> can_update_did example_env example_ddo
         (JStr ''2020-01-01T00:00:05Z'') (JStr ''0xsigned-by-stranger'')"
    by (simp add: example_defs value_defs helper_defs)
  moreover have "status_of (fst (update example_env ''127.0.0.1'' example_did
                                   example_takeover_payload example_db)) = Some 200"
    by (simp add: status_of_def example_takeover_payload_def example_defs value_defs helper_defs
        handler_defs)
  moreover have "Option.bind
         (dao_get (snd (update example_env ''127.0.0.1'' example_did example_takeover_payload example_db))
            example_did)
         owner_of
       = Some (JStr example_stranger)"
    by (simp add: example_takeover_payload_def example_defs value_defs helper_defs handler_defs)
  ultimately show ?thesis by blast
qed

text \<open>
  Claim C1, amended. A FullUpdate is gated by the caller's remote address alone: from an
  address other than \<open>127.0.0.1\<close> and \<open>localhost\<close> the store is never changed and a JSON
  object as payload is answered with 401, \<open>You have no rights\<close>; and the outcome of a
  FullUpdate does not depend on what signer the submitted \<open>updated\<close> and \<open>signature\<close>
  recover to.
\<close>

theorem full_update_gated_by_remote_address:
  "(\<not> is_local ip \<longrightarrow> snd (update env ip did data db) = db)
   \<and> (\<not> is_local ip \<and> is_dict data \<longrightarrow>
        fst (update env ip did data db) = Return (Text ''You have no rights'') 401)
   \<and> update (env\<lparr>recoverSigner := r\<rparr>) ip did data db = update env ip did data db"
  by (simp add: update_not_local update_signer)

theorem full_update_gated_by_remote_address_witness:
  "\<not> is_local ''10.0.0.7'' \<and> is_dict example_takeover_payload
   \<and> update example_env ''10.0.0.7'' example_did example_takeover_payload example_db
       = (Return (Text ''You have no rights'') 401, example_db)
   \<and> update (example_env\<lparr>recoverSigner := (\<lambda>updated signature. Some example_owner)\<rparr>)
         ''127.0.0.1'' example_did example_takeover_payload example_db
       = update example_env ''127.0.0.1'' example_did example_takeover_payload example_db"
proof -
  have remote: "\<not> is_local ''10.0.0.7''"
    by (simp add: is_local_def)
  have dict: "is_dict example_takeover_payload"
    by (simp add: example_takeover_payload_def is_dict_def)
  from full_update_gated_by_remote_address
    [of "''10.0.0.7''" example_env example_did example_takeover_payload example_db]
    remote dict
  have "update example_env ''10.0.0.7'' example_did example_takeover_payload example_db
       = (Return (Text ''You have no rights'') 401, example_db)"
    by (metis prod.collapse)
  moreover from full_update_gated_by_remote_address
    [of "''127.0.0.1''" example_env example_did example_takeover_payload example_db
        "\<lambda>updated signature. Some example_owner"]
  have "update (example_env\<lparr>recoverSigner := (\<lambda>updated signature. Some example_owner)\<rparr>)
         ''127.0.0.1'' example_did example_takeover_payload example_db
       = update example_env ''127.0.0.1'' example_did example_takeover_payload example_db"
    by blast
  ultimately show ?thesis
    using remote dict by blast
qed

section \<open>RateUpdate\<close>

subsection \<open>Rounding\<close>

lemma rhe_nearest:
  assumes "0 < d"
  shows "\<bar>real n / real d - real (rhe n d)\<bar> \<le> 1 / 2"
proof -
  define q where "q = n div d"
  define r where "r = n mod d"
  have n: "real n = real q * real d + real r"
    unfolding q_def r_def by (metis div_mult_mod_eq of_nat_add of_nat_mult)
  have r: "r < d" unfolding r_def using assms by simp
  have d: "0 < real d" using assms by simp
  have frac: "real n / real d = real q + real r / real d"
    using d n by (simp add: field_simps)
  consider "2 * r < d" | "d < 2 * r" | "2 * r = d" by linarith
  then show ?thesis
  proof cases
    case 1
    then have "rhe n d = q" by (simp add: rhe_def q_def r_def Let_def)
    moreover from 1 have "real r / real d \<le> 1 / 2"
      using d by (auto simp: field_simps)
    moreover have "0 \<le> real r / real d" by simp
    ultimately show ?thesis using frac by simp
  next
    case 2
    then have "rhe n d = q + 1" by (simp add: rhe_def q_def r_def Let_def)
    moreover from 2 have "1 / 2 \<le> real r / real d"
      using d by (auto simp: field_simps)
    moreover from r have "real r / real d \<le> 1"
      using d by (simp add: field_simps)
    ultimately show ?thesis using frac by simp
  next
    case 3
    then have "rhe n d = q \<or> rhe n d = q + 1" by (simp add: rhe_def q_def r_def Let_def)
    moreover from 3 have "real r / real d = 1 / 2"
      using d by (auto simp: field_simps)
    ultimately show ?thesis using frac by auto
  qed
qed

lemma two_powr_int:
  "0 \<le> e \<Longrightarrow> 2 powr (real_of_int e) = 2 ^ nat e"
  "e < 0 \<Longrightarrow> 2 powr (real_of_int e) = 1 / 2 ^ nat (- e)"
proof -
  show "0 \<le> e \<Longrightarrow> 2 powr (real_of_int e) = 2 ^ nat e"
  proof -
    assume "0 \<le> e"
    then obtain n where e: "e = int n" using nonneg_int_cases by blast
    show ?thesis by (simp add: e powr_realpow)
  qed
  assume "e < 0"
  then have "2 powr (real_of_int e) = 2 powr (- real (nat (- e)))" by simp
  also have "\<dots> = 1 / 2 powr (real (nat (- e)))" by (simp add: powr_minus divide_inverse)
  also have "\<dots> = 1 / 2 ^ nat (- e)" by (simp add: powr_realpow)
  finally show "2 powr (real_of_int e) = 1 / 2 ^ nat (- e)" .
qed

lemma rhe_scaled_nearest:
  assumes "0 < d"
  shows "\<bar>real n / (real d * 2 powr (real_of_int e)) - real (rhe_scaled n d e)\<bar> \<le> 1 / 2"
proof (cases "0 \<le> e")
  case True
  have "0 < d * 2 ^ nat e" using assms by simp
  from rhe_nearest [OF this, of n] True show ?thesis
    by (simp add: rhe_scaled_def two_powr_int)
next
  case False
  from rhe_nearest [OF assms, of "n * 2 ^ nat (- e)"] False show ?thesis
    by (simp add: rhe_scaled_def two_powr_int)
qed

lemma tenths_of_nearest:
  "\<bar>10 * (real m * 2 powr (real_of_int e)) - real (tenths_of m e)\<bar> \<le> 1 / 2"
proof -
  have "real (m * 10) / (real 1 * 2 powr (real_of_int (- e))) = 10 * (real m * 2 powr (real_of_int e))"
    by (simp add: powr_minus field_simps)
  with rhe_scaled_nearest [of 1 "m * 10" "- e"] show ?thesis
    by (simp add: tenths_of_def)
qed

subsection \<open>Loops over the services of a stored document\<close>

lemma loop_services_all2:
  "loop_services f i xs = Some ys \<Longrightarrow> list_all2 (\<lambda>s s'. \<exists>j. f j s = Some s') xs ys"
proof (induction xs arbitrary: i ys)
  case Nil
  then show ?case by simp
next
  case (Cons s xs)
  from Cons.prems obtain s' ys' where
    "f i s = Some s'" "loop_services f (i + 1) xs = Some ys'" "ys = s' # ys'"
    by (auto simp: bind_eq_Some_conv)
  with Cons.IH [of "i + 1" ys'] show ?case by auto
qed

lemma loop_services_strings:
  assumes "loop_services f i (map g xs) = Some ys"
    and "\<And>x. \<exists>s. g x = JStr s"
    and "\<And>j s. f j (JStr s) = None"
  shows "xs = []"
proof (cases xs)
  case Nil
  then show ?thesis by simp
next
  case (Cons x xs')
  from assms(2) obtain s where "g x = JStr s" by blast
  with assms(1,3) Cons show ?thesis by simp
qed

text \<open>
  What \<open>for_each_service\<close> leaves behind: the keys other than \<open>service\<close> are untouched,
  and a list of services is changed element by element.
\<close>

lemma for_each_service_result:
  assumes "for_each_service f doc = Some doc'"
    and "\<And>j s. f j (JStr s) = None"
  shows "(\<forall>key. key \<noteq> ''service'' \<longrightarrow> getitem doc' key = getitem doc key)
       \<and> (case getitem doc ''service'' of
            Some (JList xs) \<Rightarrow>
              (\<exists>ys. getitem doc' ''service'' = Some (JList ys)
                   \<and> list_all2 (\<lambda>s s'. \<exists>j. f j s = Some s') xs ys)
          | _ \<Rightarrow> getitem doc' ''service'' = getitem doc ''service'')"
proof -
  from assms(1) obtain services items items' where
    s: "getitem doc ''service'' = Some services" and i: "py_iter services = Some items"
    and l: "loop_services f 0 items = Some items'"
    and d: "setitem doc ''service'' (rebuild services items') = Some doc'"
    by (auto simp: for_each_service_def bind_eq_Some_conv)
  have other: "\<forall>key. key \<noteq> ''service'' \<longrightarrow> getitem doc' key = getitem doc key"
    using d by (simp add: getitem_setitem_neq)
  have new: "getitem doc' ''service'' = Some (rebuild services items')"
    using d by (rule getitem_setitem_eq)
  show ?thesis
  proof (cases services)
    case (JList xs)
    with i have "items = xs" by (simp add: py_iter_def)
    with l have "list_all2 (\<lambda>s s'. \<exists>j. f j s = Some s') xs items'"
      by (auto dest: loop_services_all2)
    with s JList new other show ?thesis by (simp add: rebuild_def)
  qed (use s new other in \<open>simp_all add: rebuild_def\<close>)
qed

lemma type_is_metadata_string [simp]: "type_is_metadata (JStr s) = None"
  by (simp add: type_is_metadata_def getitem_def)

lemma metadata_services_all2:
  assumes "list_all2 R xs ys"
    and "\<And>s s'. R s s' \<Longrightarrow> getitem s' ''type'' = getitem s ''type''"
  shows "list_all2 R (filter is_metadata xs) (filter is_metadata ys)"
  using assms(1)
proof (induction rule: list_all2_induct)
  case Nil
  then show ?case by simp
next
  case (Cons x xs y ys)
  from assms(2) [OF Cons.hyps(1)] have "is_metadata y = is_metadata x"
    by (rule is_metadata_cong)
  with Cons show ?case by simp
qed

lemma list_all2_right: "list_all2 R xs ys \<Longrightarrow> y \<in> set ys \<Longrightarrow> \<exists>x \<in> set xs. R x y"
  by (induction rule: list_all2_induct) auto

subsection \<open>The rating that is stored\<close>

lemma rate_service_result:
  assumes "rate_service data j s = Some s'"
  shows "getitem s' ''type'' = getitem s ''type''"
    and "is_metadata s \<Longrightarrow>
           get_path s' [''attributes'', ''curation'', ''rating'']
             = Option.bind (getitem data ''rating'') py_round1
         \<and> Option.bind (getitem data ''rating'') py_round1 \<noteq> None
         \<and> get_path s' [''attributes'', ''curation'', ''numVotes''] = getitem data ''numVotes''"
    and "\<not> is_metadata s \<Longrightarrow> s' = s"
proof -
  from assms have ht: "has_type s"
    by (auto simp: rate_service_def type_is_metadata_eq split: if_splits)
  show "\<not> is_metadata s \<Longrightarrow> s' = s"
    using assms ht by (simp add: rate_service_def type_is_metadata_eq)
  {
    assume md: "is_metadata s"
    with assms ht obtain rating rounded s1 num_votes where
      r: "getitem data ''rating'' = Some rating" "py_round1 rating = Some rounded"
      and s1: "set_path s [''attributes'', ''curation'', ''rating''] rounded = Some s1"
      and n: "getitem data ''numVotes'' = Some num_votes"
      and s2: "set_path s1 [''attributes'', ''curation'', ''numVotes''] num_votes = Some s'"
      by (auto simp: rate_service_def type_is_metadata_eq bind_eq_Some_conv)
    have "get_path s1 [''attributes'', ''curation'', ''rating''] = Some rounded"
      using s1 by (rule get_set_path_same)
    moreover have "get_path s' [''attributes'', ''curation'', ''rating'']
                     = get_path s1 [''attributes'', ''curation'', ''rating'']"
      using s2 by (rule get_set_path_other) simp_all
    moreover have "get_path s' [''attributes'', ''curation'', ''numVotes''] = Some num_votes"
      using s2 by (rule get_set_path_same)
    moreover have "getitem s' ''type'' = getitem s ''type''"
      using set_path_getitem_other [OF s1, of "''type''"] set_path_getitem_other [OF s2, of "''type''"]
      by simp
    ultimately have
      "get_path s' [''attributes'', ''curation'', ''rating'']
             = Option.bind (getitem data ''rating'') py_round1
         \<and> Option.bind (getitem data ''rating'') py_round1 \<noteq> None
         \<and> get_path s' [''attributes'', ''curation'', ''numVotes''] = getitem data ''numVotes''"
      "getitem s' ''type'' = getitem s ''type''"
      using r n by simp_all
  }
  note metadata = this
  show "is_metadata s \<Longrightarrow>
           get_path s' [''attributes'', ''curation'', ''rating'']
             = Option.bind (getitem data ''rating'') py_round1
         \<and> Option.bind (getitem data ''rating'') py_round1 \<noteq> None
         \<and> get_path s' [''attributes'', ''curation'', ''numVotes''] = getitem data ''numVotes''"
    by (rule metadata(1))
  show "getitem s' ''type'' = getitem s ''type''"
  proof (cases "is_metadata s")
    case True
    then show ?thesis by (rule metadata(2))
  next
    case False
    with \<open>\<not> is_metadata s \<Longrightarrow> s' = s\<close> show ?thesis by simp
  qed
qed

lemma update_ratings_steps:
  assumes "update_ratings env did data db = (Return body 200, db')"
  shows "\<exists>doc r1 r2 rating. dao_get db did = Some doc
    \<and> getitem data ''rating'' = Some rating \<and> (is_float rating \<or> is_int rating)
    \<and> setitem doc ''updated'' (get_timestamp env) = Some r1
    \<and> for_each_service (rate_service data) r1 = Some r2
    \<and> db' = dao_update db r2 did"
  using assms unfolding update_ratings_def
  by (auto simp: bind_out_def raising_def caught_def checked_def finish_def not_found_def
      not_allowed_def
      dest!: check_required_attributes_status
      split: if_splits option.splits sum.splits prod.splits)

lemma stored_after_rate_update:
  assumes "update_ratings env did data db = (Return body 200, db')"
  shows "\<exists>doc'. dao_get db' did = Some doc'
    \<and> (\<forall>m \<in> set (metadata_services doc').
          get_path m [''attributes'', ''curation'', ''rating'']
            = Option.bind (getitem data ''rating'') py_round1
        \<and> Option.bind (getitem data ''rating'') py_round1 \<noteq> None
        \<and> get_path m [''attributes'', ''curation'', ''numVotes''] = getitem data ''numVotes'')"
proof -
  from update_ratings_steps [OF assms] obtain doc r1 r2 where
    r1: "setitem doc ''updated'' (get_timestamp env) = Some r1"
    and r2: "for_each_service (rate_service data) r1 = Some r2"
    and db': "db' = dao_update db r2 did"
    by blast
  have str: "\<And>j s. rate_service data j (JStr s) = None"
    by (simp add: rate_service_def)
  note res = for_each_service_result [OF r2 str]
  have "\<forall>m \<in> set (metadata_services r2).
          get_path m [''attributes'', ''curation'', ''rating'']
            = Option.bind (getitem data ''rating'') py_round1
        \<and> Option.bind (getitem data ''rating'') py_round1 \<noteq> None
        \<and> get_path m [''attributes'', ''curation'', ''numVotes''] = getitem data ''numVotes''"
  proof (cases "getitem r1 ''service''")
    case None
    with res show ?thesis by (simp add: metadata_services_def)
  next
    case (Some services)
    show ?thesis
    proof (cases services)
      case (JList xs)
      with res Some obtain ys where
        ys: "getitem r2 ''service'' = Some (JList ys)"
        and rel: "list_all2 (\<lambda>s s'. \<exists>j. rate_service data j s = Some s') xs ys"
        by auto
      have "list_all2 (\<lambda>s s'. \<exists>j. rate_service data j s = Some s')
              (filter is_metadata xs) (filter is_metadata ys)"
        using rel by (rule metadata_services_all2) (auto dest: rate_service_result(1))
      then have "\<forall>m \<in> set (filter is_metadata ys).
          \<exists>s j. is_metadata s \<and> rate_service data j s = Some m"
        by (fastforce dest: list_all2_right)
      then show ?thesis
        using ys
        by (auto simp: metadata_services_def simp del: get_path.simps dest: rate_service_result(2))
    qed (use res Some in \<open>simp_all add: metadata_services_def\<close>)
  qed
  then show ?thesis
    using db' by (simp add: dao_update_def dao_get_def)
qed

lemma py_round1_float:
  "py_round1 (JFloat (Finite s m e)) = map_option JFloat (nearest_double s (tenths_of m e) 10)"
  by (simp add: py_round1_def float_round1_def)

text \<open>
  Claim C8. For every RateUpdate that succeeds (status 200), the rating stored in the
  curation of each metadata service of the document is \<open>round(rating, 1)\<close> of the
  submitted rating. For a float \<open>x\<close> that is the double nearest to the decimal \<open>k/10\<close>,
  where \<open>k\<close> is an integer nearest to \<open>10 * |x|\<close>; an integer rating is stored as it is.
\<close>

theorem rate_update_stores_rounded_rating:
  assumes "update_ratings env did data db = (Return body 200, db')"
  shows "(\<forall>r \<in> set (stored_ratings db' did).
            r \<noteq> None \<and> r = Option.bind (getitem data ''rating'') py_round1)
       \<and> (\<forall>s m e. getitem data ''rating'' = Some (JFloat (Finite s m e)) \<longrightarrow>
            py_round1 (JFloat (Finite s m e)) = map_option JFloat (nearest_double s (tenths_of m e) 10)
            \<and> \<bar>10 * \<bar>fval (Finite s m e)\<bar> - real (tenths_of m e)\<bar> \<le> 1 / 2)
       \<and> (\<forall>n. getitem data ''rating'' = Some (JInt n) \<longrightarrow> py_round1 (JInt n) = Some (JInt n))"
proof -
  from stored_after_rate_update [OF assms]
  have "\<forall>r \<in> set (stored_ratings db' did).
            r \<noteq> None \<and> r = Option.bind (getitem data ''rating'') py_round1"
    by (auto simp: stored_ratings_def simp del: get_path.simps)
  moreover have "\<bar>10 * \<bar>fval (Finite s m e)\<bar> - real (tenths_of m e)\<bar> \<le> 1 / 2" for s m e
  proof -
    have "\<bar>fval (Finite s m e)\<bar> = real m * 2 powr (real_of_int e)"
      by (simp add: fval_def abs_mult)
    with tenths_of_nearest [of m e] show ?thesis by simp
  qed
  ultimately show ?thesis
    by (simp add: py_round1_float) (simp add: py_round1_def)
qed

lemma round_2_449:
  "float_round1 (float_of_decimal False 2449 1000) = Some (float_of_decimal False 24 10)"
  by (simp add: float_of_decimal_def nearest_double_def float_round1_def tenths_of_def
      floor_log2_ratio_def rhe_scaled_def rhe_def bit_length.simps Let_def)

lemma round_2_45:
  "float_round1 (float_of_decimal False 245 100) = Some (float_of_decimal False 25 10)"
  by (simp add: float_of_decimal_def nearest_double_def float_round1_def tenths_of_def
      floor_log2_ratio_def rhe_scaled_def rhe_def bit_length.simps Let_def)

lemma rate_example_runs:
  assumes "float_round1 x = Some y"
  shows "status_of (fst (update_ratings example_env example_did
                      (example_rating_payload (JFloat x) (JInt 50)) example_db)) = Some 200"
    and "length (stored_ratings
                   (snd (update_ratings example_env example_did
                           (example_rating_payload (JFloat x) (JInt 50)) example_db))
                   example_did) = 1"
    and "Option.bind (getitem (example_rating_payload (JFloat x) (JInt 50)) ''rating'') py_round1
           = Some (JFloat y)"
  using assms
  by (simp_all add: status_of_def example_rating_payload_def example_defs value_defs helper_defs
      handler_defs py_round1_def stored_ratings_def metadata_services_def)

lemma singleton_list:
  "length xs = 1 \<Longrightarrow> \<forall>x \<in> set xs. x = v \<Longrightarrow> xs = [v]"
  by (cases xs) auto

theorem rate_update_stores_rounded_rating_witness:
  "status_of (fst (update_ratings example_env example_did
      (example_rating_payload (JFloat (float_of_decimal False 2449 1000)) (JInt 50)) example_db))
     = Some 200
   \<and> stored_ratings
       (snd (update_ratings example_env example_did
          (example_rating_payload (JFloat (float_of_decimal False 2449 1000)) (JInt 50)) example_db))
       example_did
     = [Some (JFloat (float_of_decimal False 24 10))]
   \<and> status_of (fst (update_ratings example_env example_did
      (example_rating_payload (JFloat (float_of_decimal False 245 100)) (JInt 50)) example_db))
     = Some 200
   \<and> stored_ratings
       (snd (update_ratings example_env example_did
          (example_rating_payload (JFloat (float_of_decimal False 245 100)) (JInt 50)) example_db))
       example_did
     = [Some (JFloat (float_of_decimal False 25 10))]"
proof -
  have stored: "stored_ratings
       (snd (update_ratings example_env example_did
          (example_rating_payload (JFloat x) (JInt 50)) example_db)) example_did
     = [Some (JFloat y)]" if x: "float_round1 x = Some y" for x y
  proof -
    let ?data = "example_rating_payload (JFloat x) (JInt 50)"
    let ?run = "update_ratings example_env example_did ?data example_db"
    from rate_example_runs(1) [OF x] obtain body where "?run = (Return body 200, snd ?run)"
      by (cases ?run) (auto simp: status_of_def split: outcome.splits)
    from rate_update_stores_rounded_rating [OF this] rate_example_runs(3) [OF x]
    have "\<forall>r \<in> set (stored_ratings (snd ?run) example_did). r = Some (JFloat y)"
      by simp
    with rate_example_runs(2) [OF x] show ?thesis
      by (rule singleton_list)
  qed
  show ?thesis
    using stored [OF round_2_449] stored [OF round_2_45]
      rate_example_runs(1) [OF round_2_449] rate_example_runs(1) [OF round_2_45]
    by simp
qed

section \<open>What each request does to the store\<close>

lemma get_path_single: "get_path s [k] = getitem s k"
  by (simp split: option.splits)

lemma transfer_ownership_cases:
  assumes "transfer_ownership env did data db = (out, db')"
  shows "db' = db \<or> (\<exists>doc new_owner r1 r2. dao_get db did = Some doc
      \<and> set_owner doc new_owner = Some r1
      \<and> setitem r1 ''updated'' (get_timestamp env) = Some r2 \<and> db' = db(JStr did \<mapsto> r2))"
  using assms unfolding transfer_ownership_def
  by (auto simp: bind_out_def raising_def caught_def checked_def finish_def dao_update_def
      split: if_splits option.splits sum.splits prod.splits)

lemma white_list_request_cases:
  assumes "white_list_request env method did data db action = (out, db')"
  shows "db' = db \<or> (\<exists>doc address. dao_get db did = Some doc \<and> action doc address = Inr (out, db'))"
  using assms unfolding white_list_request_def
  by (auto simp: bind_out_def raising_def caught_def checked_def finish_def
      split: if_splits option.splits sum.splits prod.splits)

lemma count_positive_False:
  "count_positive wl address = Some False \<Longrightarrow> py_append wl address = Some wl'
     \<Longrightarrow> \<exists>xs. wl = JList xs \<and> address \<notin> set xs \<and> wl' = JList (xs @ [address])"
  by (cases wl) (auto simp: count_positive_def py_append_def count_list_0_iff)

lemma count_positive_True:
  "count_positive wl address = Some True \<Longrightarrow> py_remove wl address = Some wl'
     \<Longrightarrow> \<exists>xs. wl = JList xs \<and> wl' = JList (remove1 address xs)"
  by (cases wl) (auto simp: py_remove_def split: if_splits)

lemma add_access_white_list_cases:
  assumes "add_access_white_list env did data db = (out, db')"
  shows "db' = db \<or> (\<exists>doc address xs r1 r2. dao_get db did = Some doc
      \<and> getitem doc ''accesssWhiteList'' = Some (JList xs) \<and> address \<notin> set xs
      \<and> setitem doc ''accesssWhiteList'' (JList (xs @ [address])) = Some r1
      \<and> setitem r1 ''updated'' (get_timestamp env) = Some r2 \<and> db' = db(JStr did \<mapsto> r2))"
proof (cases "db' = db")
  case True
  then show ?thesis by simp
next
  case False
  with white_list_request_cases [OF assms [unfolded add_access_white_list_def]]
  obtain doc address wl wl' r1 r2 where
    doc: "dao_get db did = Some doc" and wl: "getitem doc ''accesssWhiteList'' = Some wl"
    and c: "count_positive wl address = Some False" and a: "py_append wl address = Some wl'"
    and r1: "setitem doc ''accesssWhiteList'' wl' = Some r1"
    and r2: "setitem r1 ''updated'' (get_timestamp env) = Some r2"
    and db': "db' = dao_update db r2 did"
    by (auto simp: bind_out_def caught_def split: if_splits option.splits)
  from count_positive_False [OF c a] obtain xs where
    "wl = JList xs" "address \<notin> set xs" "wl' = JList (xs @ [address])"
    by blast
  with doc wl r1 r2 db' show ?thesis
    by (auto simp: dao_update_def)
qed

lemma delete_access_white_list_cases:
  assumes "delete_access_white_list env did data db = (out, db')"
  shows "db' = db \<or> (\<exists>doc address xs r1 r2. dao_get db did = Some doc
      \<and> getitem doc ''accesssWhiteList'' = Some (JList xs)
      \<and> setitem doc ''accesssWhiteList'' (JList (remove1 address xs)) = Some r1
      \<and> setitem r1 ''updated'' (get_timestamp env) = Some r2 \<and> db' = db(JStr did \<mapsto> r2))"
proof (cases "db' = db")
  case True
  then show ?thesis by simp
next
  case False
  with white_list_request_cases [OF assms [unfolded delete_access_white_list_def]]
  obtain doc address wl wl' r1 r2 where
    doc: "dao_get db did = Some doc" and wl: "getitem doc ''accesssWhiteList'' = Some wl"
    and c: "count_positive wl address = Some True" and a: "py_remove wl address = Some wl'"
    and r1: "setitem doc ''accesssWhiteList'' wl' = Some r1"
    and r2: "setitem r1 ''updated'' (get_timestamp env) = Some r2"
    and db': "db' = dao_update db r2 did"
    by (auto simp: bind_out_def caught_def split: if_splits option.splits)
  from count_positive_True [OF c a] obtain xs where
    "wl = JList xs" "wl' = JList (remove1 address xs)"
    by blast
  with doc wl r1 r2 db' show ?thesis
    by (auto simp: dao_update_def)
qed

lemma update_metadata_cases:
  assumes "update_metadata env did data db = (out, db')"
  shows "db' = db \<or> (\<exists>doc r1 r2. dao_get db did = Some doc
      \<and> authorized_as_owner env db did data
      \<and> setitem doc ''updated'' (get_timestamp env) = Some r1
      \<and> for_each_service (update_metadata_service data) r1 = Some r2
      \<and> out = Return (Text ''Metadata successfully updated'') 200
      \<and> db' = db(JStr did \<mapsto> r2))"
  using assms unfolding update_metadata_def
  by (auto simp: bind_out_def raising_def caught_def checked_def finish_def dao_update_def
      authorized_as_owner_def
      split: if_splits option.splits sum.splits prod.splits)

lemma update_ratings_cases:
  assumes "update_ratings env did data db = (out, db')"
  shows "db' = db \<or> (\<exists>body. out = Return body 200)"
  using assms unfolding update_ratings_def
  by (auto simp: bind_out_def raising_def caught_def checked_def finish_def
      split: if_splits option.splits sum.splits prod.splits)




text \<open>
  A stored document without \<open>id\<close> makes RetireAll fail before it deletes anything; a
  stored document with its \<open>id\<close> is deleted.
\<close>

lemma retire_all_examples:
  "retire_all example_env ''127.0.0.1'' [JStr example_did \<mapsto> JObj [(''created'', JNull)]]
     = (Return (Text ''An error was found'') 500, [JStr example_did \<mapsto> JObj [(''created'', JNull)]])"
  "fst (retire_all example_env ''127.0.0.1'' example_db)
     = Return (Text ''All ddo successfully deleted'') 200"
  "snd (retire_all example_env ''127.0.0.1'' example_db) (JStr example_did) = None"
  by (simp_all add: retire_all_def is_local_def example_defs getitem_def dao_delete_def)

lemma set_owner_other:
  "set_owner doc v = Some r1 \<Longrightarrow> key \<noteq> ''publicKey'' \<Longrightarrow> getitem r1 key = getitem doc key"
  by (auto simp: set_owner_def modify_item_def getitem_setitem_neq split: option.splits)

section \<open>The vote count\<close>

lemma set_path_apart:
  "set_path s p v = Some s' \<Longrightarrow> apart p q \<Longrightarrow> get_path s' q = get_path s q"
  by (auto simp: apart_def dest: get_set_path_other)

lemma update_title_keeps:
  "update_title data s = Some s' \<Longrightarrow> apart [''attributes'', ''main'', ''name''] q
     \<Longrightarrow> get_path s' q = get_path s q"
  by (auto simp: update_title_def simp del: set_path.simps get_path.simps
      dest: set_path_apart split: option.splits if_splits)

lemma update_description_keeps:
  "update_description data s = Some s'
     \<Longrightarrow> apart [''attributes'', ''additionalInformation'', ''description''] q
     \<Longrightarrow> get_path s' q = get_path s q"
  by (auto simp: update_description_def simp del: set_path.simps get_path.simps
      dest: set_path_apart split: option.splits if_splits)

lemma update_links_keeps:
  "update_links data s = Some s'
     \<Longrightarrow> apart [''attributes'', ''additionalInformation'', ''links''] q
     \<Longrightarrow> get_path s' q = get_path s q"
  by (auto simp: update_links_def bind_eq_Some_conv simp del: set_path.simps get_path.simps
      dest: set_path_apart split: option.splits if_splits json.splits)

lemma apply_prices_keeps:
  "apply_prices j prices s = Some s' \<Longrightarrow> apart [''attributes'', ''main'', ''price''] q
     \<Longrightarrow> get_path s' q = get_path s q"
proof (induction prices arbitrary: s)
  case Nil
  then show ?case by simp
next
  case (Cons price prices)
  from Cons.prems(1) consider
    (skip) "apply_prices j prices s = Some s'"
    | (set) p s1 where "set_path s [''attributes'', ''main'', ''price''] p = Some s1"
        "apply_prices j prices s1 = Some s'"
    by (auto simp: bind_eq_Some_conv simp del: set_path.simps split: if_splits)
  then show ?case
  proof cases
    case skip
    then show ?thesis using Cons.IH Cons.prems(2) by blast
  next
    case set
    from Cons.IH [OF set(2) Cons.prems(2)] set_path_apart [OF set(1) Cons.prems(2)]
    show ?thesis by simp
  qed
qed

lemma update_metadata_service_keeps:
  assumes "update_metadata_service data j s = Some s'"
    and "\<forall>p \<in> set metadata_update_paths. apart p q"
  shows "get_path s' q = get_path s q"
proof -
  from assms(2) have ap:
    "apart [''attributes'', ''main'', ''name''] q"
    "apart [''attributes'', ''additionalInformation'', ''description''] q"
    "apart [''attributes'', ''additionalInformation'', ''links''] q"
    "apart [''attributes'', ''main'', ''price''] q"
    by (simp_all add: metadata_update_paths_def)
  from assms(1) obtain s1 where
    s1: "s1 = s \<or> (\<exists>a b. update_title data s = Some a \<and> update_description data a = Some b
                      \<and> update_links data b = Some s1)"
    and s': "apply_prices j (service_prices data) s1 = Some s'"
    by (auto simp: update_metadata_service_def bind_eq_Some_conv split: if_splits)
  from s1 have "get_path s1 q = get_path s q"
    using update_title_keeps [OF _ ap(1)] update_description_keeps [OF _ ap(2)]
      update_links_keeps [OF _ ap(3)]
    by (metis (no_types))
  with apply_prices_keeps [OF s' ap(4)] show ?thesis by simp
qed

lemma update_metadata_service_type:
  assumes "update_metadata_service data j s = Some s'"
  shows "getitem s' ''type'' = getitem s ''type''"
  using update_metadata_service_keeps [OF assms, of "[''type'']"]
  by (simp add: metadata_update_paths_def apart_def get_path_single del: get_path.simps)

lemma update_metadata_service_num_votes:
  assumes "update_metadata_service data j s = Some s'"
  shows "get_path s' [''attributes'', ''curation'', ''numVotes'']
           = get_path s [''attributes'', ''curation'', ''numVotes'']"
  using update_metadata_service_keeps [OF assms, of "[''attributes'', ''curation'', ''numVotes'']"]
  by (simp add: metadata_update_paths_def apart_def del: get_path.simps)

lemma map_metadata_all2:
  assumes "list_all2 R xs ys"
    and "\<And>s s'. R s s' \<Longrightarrow> getitem s' ''type'' = getitem s ''type'' \<and> g s' = g s"
  shows "map g (filter is_metadata ys) = map g (filter is_metadata xs)"
  using assms(1)
proof (induction rule: list_all2_induct)
  case Nil
  then show ?case by simp
next
  case (Cons x xs y ys)
  from assms(2) [OF Cons.hyps(1)] have "is_metadata y = is_metadata x" "g y = g x"
    by (auto simp: is_metadata_def)
  with Cons show ?case by simp
qed

lemma metadata_services_cong:
  "getitem doc' ''service'' = getitem doc ''service'' \<Longrightarrow> metadata_services doc' = metadata_services doc"
  by (simp add: metadata_services_def)

lemma stored_num_votes_update:
  assumes "dao_get db did = Some doc"
    and "map (\<lambda>m. get_path m [''attributes'', ''curation'', ''numVotes'']) (metadata_services doc')
         = map (\<lambda>m. get_path m [''attributes'', ''curation'', ''numVotes'']) (metadata_services doc)"
  shows "stored_num_votes (db(JStr did \<mapsto> doc')) d = stored_num_votes db d"
  using assms by (simp add: stored_num_votes_def dao_get_def del: get_path.simps)

lemma stored_num_votes_same_services:
  assumes "dao_get db did = Some doc" "getitem doc' ''service'' = getitem doc ''service''"
  shows "stored_num_votes (db(JStr did \<mapsto> doc')) d = stored_num_votes db d"
  using assms(1) metadata_services_cong [OF assms(2)]
  by (intro stored_num_votes_update) simp_all

lemma update_metadata_num_votes:
  assumes "update_metadata env did data db = (out, db')"
  shows "stored_num_votes db' d = stored_num_votes db d"
proof -
  from update_metadata_cases [OF assms] consider "db' = db"
    | doc r1 r2 where "dao_get db did = Some doc"
        "setitem doc ''updated'' (get_timestamp env) = Some r1"
        "for_each_service (update_metadata_service data) r1 = Some r2" "db' = db(JStr did \<mapsto> r2)"
    by blast
  then show ?thesis
  proof cases
    case 1
    then show ?thesis by simp
  next
    case 2
    have str: "\<And>j s. update_metadata_service data j (JStr s) = None"
      by (simp add: update_metadata_service_def)
    note res = for_each_service_result [OF 2(3) str]
    have same: "getitem r1 ''service'' = getitem doc ''service''"
      using 2(2) by (simp add: getitem_setitem_neq)
    let ?g = "\<lambda>m. get_path m [''attributes'', ''curation'', ''numVotes'']"
    have "map ?g (metadata_services r2) = map ?g (metadata_services doc)"
    proof (cases "getitem r1 ''service''")
      case None
      with res same show ?thesis by (simp add: metadata_services_def)
    next
      case (Some services)
      show ?thesis
      proof (cases services)
        case (JList xs)
        with res Some obtain ys where
          ys: "getitem r2 ''service'' = Some (JList ys)"
          and rel: "list_all2 (\<lambda>s s'. \<exists>j. update_metadata_service data j s = Some s') xs ys"
          by auto
        have "map ?g (filter is_metadata ys) = map ?g (filter is_metadata xs)"
          using rel
          by (rule map_metadata_all2)
             (auto dest: update_metadata_service_type update_metadata_service_num_votes
               simp del: get_path.simps)
        with ys Some JList same show ?thesis
          by (simp add: metadata_services_def del: get_path.simps)
      qed (use res Some same in \<open>simp_all add: metadata_services_def\<close>)
    qed
    with 2(1,4) show ?thesis
      by (simp add: stored_num_votes_update del: get_path.simps)
  qed
qed

lemma update_ratings_num_votes:
  assumes "update_ratings env did data db = (out, db')"
  shows "(status_of out = Some 200 \<longrightarrow>
            (\<forall>v \<in> set (stored_num_votes db' did). v = getitem data ''numVotes''))
       \<and> (status_of out \<noteq> Some 200 \<or> d \<noteq> did \<longrightarrow> stored_num_votes db' d = stored_num_votes db d)"
proof (cases "status_of out = Some 200")
  case True
  then obtain body where out: "out = Return body 200"
    by (auto simp: status_of_def split: outcome.splits)
  from stored_after_rate_update [OF assms [unfolded out]]
  have "\<forall>v \<in> set (stored_num_votes db' did). v = getitem data ''numVotes''"
    by (auto simp: stored_num_votes_def simp del: get_path.simps)
  moreover from update_ratings_steps [OF assms [unfolded out]] obtain r2 where
    "db' = dao_update db r2 did" by blast
  then have "d \<noteq> did \<longrightarrow> stored_num_votes db' d = stored_num_votes db d"
    by (simp add: stored_num_votes_def dao_update_def dao_get_def)
  ultimately show ?thesis using True by simp
next
  case False
  with update_ratings_cases [OF assms] have "db' = db"
    by (auto simp: status_of_def)
  with False show ?thesis by simp
qed

lemma transfer_ownership_num_votes:
  assumes "transfer_ownership env did data db = (out, db')"
  shows "stored_num_votes db' d = stored_num_votes db d"
proof -
  from transfer_ownership_cases [OF assms] consider "db' = db"
    | doc new_owner r1 r2 where "dao_get db did = Some doc" "set_owner doc new_owner = Some r1"
        "setitem r1 ''updated'' (get_timestamp env) = Some r2" "db' = db(JStr did \<mapsto> r2)"
    by blast
  then show ?thesis
  proof cases
    case 1
    then show ?thesis by simp
  next
    case 2
    have "getitem r2 ''service'' = getitem doc ''service''"
      using set_owner_other [OF 2(2), of "''service''"] 2(3) by (simp add: getitem_setitem_neq)
    with 2(1,4) show ?thesis by (simp add: stored_num_votes_same_services)
  qed
qed

lemma add_access_white_list_num_votes:
  assumes "add_access_white_list env did data db = (out, db')"
  shows "stored_num_votes db' d = stored_num_votes db d"
proof -
  from add_access_white_list_cases [OF assms] consider "db' = db"
    | doc wl r1 r2 where "dao_get db did = Some doc"
        "setitem doc ''accesssWhiteList'' wl = Some r1"
        "setitem r1 ''updated'' (get_timestamp env) = Some r2" "db' = db(JStr did \<mapsto> r2)"
    by blast
  then show ?thesis
  proof cases
    case 1
    then show ?thesis by simp
  next
    case 2
    have "getitem r2 ''service'' = getitem doc ''service''"
      using 2(2,3) by (simp add: getitem_setitem_neq)
    with 2(1,4) show ?thesis by (simp add: stored_num_votes_same_services)
  qed
qed

lemma delete_access_white_list_num_votes:
  assumes "delete_access_white_list env did data db = (out, db')"
  shows "stored_num_votes db' d = stored_num_votes db d"
proof -
  from delete_access_white_list_cases [OF assms] consider "db' = db"
    | doc wl r1 r2 where "dao_get db did = Some doc"
        "setitem doc ''accesssWhiteList'' wl = Some r1"
        "setitem r1 ''updated'' (get_timestamp env) = Some r2" "db' = db(JStr did \<mapsto> r2)"
    by blast
  then show ?thesis
  proof cases
    case 1
    then show ?thesis by simp
  next
    case 2
    have "getitem r2 ''service'' = getitem doc ''service''"
      using 2(2,3) by (simp add: getitem_setitem_neq)
    with 2(1,4) show ?thesis by (simp add: stored_num_votes_same_services)
  qed
qed

text \<open>
  Claim C9, as the code has it. \<open>update_ratings\<close> stores the submitted \<open>numVotes\<close>
  without comparing it with the stored one: after a RateUpdate that stored 50 votes, a
  RateUpdate with 3 votes succeeds and 3 is stored.
\<close>

theorem rate_update_lowers_num_votes_counterexample:
  "stored_num_votes
     (snd (update_ratings example_env example_did (example_rating_payload (JInt 4) (JInt 50))
             example_db))
     example_did
     = [Some (JInt 50)]
   \<and> status_of (fst (update_ratings example_env example_did
        (example_rating_payload (JInt 4) (JInt 3))
        (snd (update_ratings example_env example_did (example_rating_payload (JInt 4) (JInt 50))
                example_db))))
     = Some 200
   \<and> stored_num_votes
       (snd (update_ratings example_env example_did (example_rating_payload (JInt 4) (JInt 3))
          (snd (update_ratings example_env example_did (example_rating_payload (JInt 4) (JInt 50))
                  example_db))))
       example_did
     = [Some (JInt 3)]
   \<and> (3 :: int) < 50"
  by (simp add: status_of_def stored_num_votes_def metadata_services_def py_round1_def
      example_rating_payload_def example_defs value_defs helper_defs handler_defs)

text \<open>
  Claim C9, amended. The vote count of a stored document is left as it is by
  TransferOwnership, WhitelistAdd, WhitelistRemove and PartialMetadataUpdate. A RateUpdate
  that succeeds stores the submitted \<open>numVotes\<close> in every metadata service of its
  document, whether smaller or larger than the stored count, and leaves the other
  documents alone; a RateUpdate that fails changes no vote count. (Create and FullUpdate
  replace a document, Retire and RetireAll delete it.)
\<close>

theorem num_votes_changed_only_by_rating_or_replacement:
  assumes "handle env req db = (out, db')"
  shows "(keeps_num_votes req \<longrightarrow> stored_num_votes db' d = stored_num_votes db d)
       \<and> (\<forall>did data. req = RateUpdate did data \<longrightarrow>
            (status_of out = Some 200 \<longrightarrow>
               (\<forall>v \<in> set (stored_num_votes db' did). v = getitem data ''numVotes''))
          \<and> (status_of out \<noteq> Some 200 \<or> d \<noteq> did \<longrightarrow>
               stored_num_votes db' d = stored_num_votes db d))"
proof (cases req)
  case (TransferOwnership did data)
  with assms transfer_ownership_num_votes show ?thesis by (simp add: keeps_num_votes_def)
next
  case (RateUpdate did data)
  with assms update_ratings_num_votes [of env did data db out db' d] show ?thesis
    by (simp add: keeps_num_votes_def)
next
  case (WhitelistAdd did data)
  with assms add_access_white_list_num_votes show ?thesis by (simp add: keeps_num_votes_def)
next
  case (WhitelistRemove did data)
  with assms delete_access_white_list_num_votes show ?thesis by (simp add: keeps_num_votes_def)
next
  case (PartialMetadataUpdate did data)
  with assms update_metadata_num_votes show ?thesis by (simp add: keeps_num_votes_def)
qed (simp_all add: keeps_num_votes_def)

theorem num_votes_changed_only_by_rating_or_replacement_witness:
  "keeps_num_votes (TransferOwnership example_did (example_transfer_payload example_stranger))
   \<and> stored_num_votes
       (snd (handle example_env
               (TransferOwnership example_did (example_transfer_payload example_stranger)) example_db))
       example_did
     = [Some (JInt 0)]
   \<and> status_of (fst (handle example_env
        (RateUpdate example_did (example_rating_payload (JInt 4) (JInt 50))) example_db))
     = Some 200
   \<and> stored_num_votes
       (snd (handle example_env
               (RateUpdate example_did (example_rating_payload (JInt 4) (JInt 50))) example_db))
       example_did
     = [Some (JInt 50)]"
proof -
  let ?transfer = "TransferOwnership example_did (example_transfer_payload example_stranger)"
  let ?rate = "RateUpdate example_did (example_rating_payload (JInt 4) (JInt 50))"
  have keeps: "keeps_num_votes ?transfer"
    by (simp add: keeps_num_votes_def)
  have before: "stored_num_votes example_db example_did = [Some (JInt 0)]"
    by (simp add: stored_num_votes_def metadata_services_def example_defs value_defs helper_defs)
  have run: "handle example_env req example_db
               = (fst (handle example_env req example_db), snd (handle example_env req example_db))"
    for req by simp
  have ok: "status_of (fst (handle example_env ?rate example_db)) = Some 200"
    by (simp add: status_of_def py_round1_def example_rating_payload_def example_defs value_defs
        helper_defs handler_defs)
  have one: "length (stored_num_votes (snd (handle example_env ?rate example_db)) example_did) = 1"
    by (simp add: stored_num_votes_def metadata_services_def py_round1_def
        example_rating_payload_def example_defs value_defs helper_defs handler_defs)
  have submitted: "getitem (example_rating_payload (JInt 4) (JInt 50)) ''numVotes'' = Some (JInt 50)"
    by (simp add: example_rating_payload_def signed_by_def getitem_def)
  from num_votes_changed_only_by_rating_or_replacement [OF run [of ?transfer], of example_did]
    keeps before
  have "stored_num_votes (snd (handle example_env ?transfer example_db)) example_did
          = [Some (JInt 0)]"
    by simp
  moreover
  from num_votes_changed_only_by_rating_or_replacement [OF run [of ?rate], of example_did]
    ok submitted
  have "\<forall>v \<in> set (stored_num_votes (snd (handle example_env ?rate example_db)) example_did).
          v = Some (JInt 50)"
    by simp
  with one have "stored_num_votes (snd (handle example_env ?rate example_db)) example_did
                   = [Some (JInt 50)]"
    by (rule singleton_list)
  ultimately show ?thesis
    using keeps ok by simp
qed

section \<open>The access list\<close>



















section \<open>PartialMetadataUpdate\<close>

lemma link_ok_keys: "has_link_keys link \<Longrightarrow> link_ok link = Some (well_formed_link link)"
  by (auto simp: has_link_keys_def link_ok_def well_formed_link_def is_str_at_def)

lemma new_links_filter:
  "list_all has_link_keys links \<Longrightarrow> new_links links = Some (filter well_formed_link links)"
  by (induction links) (simp_all add: link_ok_keys)

lemma update_metadata_authorized:
  assumes "authorized_as_owner env db did data"
  shows "\<exists>doc. dao_get db did = Some doc \<and> update_metadata env did data db =
     (case Option.bind (setitem doc ''updated'' (get_timestamp env))
             (for_each_service (update_metadata_service data)) of
        None \<Rightarrow> (Return SomeError 500, db)
      | Some r2 \<Rightarrow> (Return (Text ''Metadata successfully updated'') 200, db(JStr did \<mapsto> r2)))"
proof -
  from assms obtain doc updated signature where
    r: "dao_get db did = Some doc" and u: "getitem data ''updated'' = Some updated"
    and s: "getitem data ''signature'' = Some signature"
    and c: "can_update_did env doc updated signature"
    by (auto simp: authorized_as_owner_def split: option.splits)
  have "check_required_attributes [''signature'', ''updated''] data ''metadataupdate'' = Some None"
    using u s by (intro check_required_attributes_pass) auto
  then show ?thesis
    using r u s c
    by (cases "setitem doc ''updated'' (get_timestamp env)")
       (auto simp: update_metadata_def dao_update_def split: option.splits)
qed

lemma update_metadata_service_links:
  assumes "update_metadata_service data j s = Some s'"
    and "getitem data ''links'' = Some (JList links)"
    and "new_links links = Some kept"
    and "is_metadata s"
  shows "get_path s' [''attributes'', ''additionalInformation'', ''links'']
           = (if kept \<noteq> [] then Some (JList kept)
              else get_path s [''attributes'', ''additionalInformation'', ''links''])"
proof -
  let ?lp = "[''attributes'', ''additionalInformation'', ''links'']"
  from assms(1,4) obtain a b s1 where
    a: "update_title data s = Some a" and b: "update_description data a = Some b"
    and s1: "update_links data b = Some s1"
    and s': "apply_prices j (service_prices data) s1 = Some s'"
    by (auto simp: update_metadata_service_def type_is_metadata_eq bind_eq_Some_conv
        split: if_splits)
  have ab: "get_path b ?lp = get_path s ?lp"
    using update_title_keeps [OF a, of ?lp] update_description_keeps [OF b, of ?lp]
    by (simp add: apart_def del: get_path.simps)
  have "get_path s1 ?lp = (if kept \<noteq> [] then Some (JList kept) else get_path b ?lp)"
    using s1 assms(2,3)
    by (auto simp: update_links_def simp del: get_path.simps set_path.simps
        dest: get_set_path_same)
  moreover have "get_path s' ?lp = get_path s1 ?lp"
    using apply_prices_keeps [OF s', of ?lp] by (simp add: apart_def del: get_path.simps)
  ultimately show ?thesis using ab by simp
qed

lemma stored_links_after:
  assumes "for_each_service (update_metadata_service data) r1 = Some r2"
    and "getitem data ''links'' = Some (JList links)"
    and "new_links links = Some kept"
  shows "map (\<lambda>m. get_path m [''attributes'', ''additionalInformation'', ''links''])
           (metadata_services r2)
         = map (\<lambda>m. if kept \<noteq> [] then Some (JList kept)
                     else get_path m [''attributes'', ''additionalInformation'', ''links''])
             (metadata_services r1)"
proof -
  let ?g = "\<lambda>m. get_path m [''attributes'', ''additionalInformation'', ''links'']"
  let ?h = "\<lambda>m. if kept \<noteq> [] then Some (JList kept) else ?g m"
  have str: "\<And>j s. update_metadata_service data j (JStr s) = None"
    by (simp add: update_metadata_service_def)
  note res = for_each_service_result [OF assms(1) str]
  show ?thesis
  proof (cases "getitem r1 ''service''")
    case None
    with res show ?thesis by (simp add: metadata_services_def)
  next
    case (Some services)
    show ?thesis
    proof (cases services)
      case (JList xs)
      with res Some obtain ys where
        ys: "getitem r2 ''service'' = Some (JList ys)"
        and rel: "list_all2 (\<lambda>s s'. \<exists>j. update_metadata_service data j s = Some s') xs ys"
        by auto
      from rel have "map ?g (filter is_metadata ys) = map ?h (filter is_metadata xs)"
      proof (induction rule: list_all2_induct)
        case Nil
        then show ?case by simp
      next
        case (Cons x xs y ys)
        from Cons.hyps(1) obtain j where j: "update_metadata_service data j x = Some y" by blast
        from update_metadata_service_type [OF j] have t: "is_metadata y = is_metadata x"
          by (simp add: is_metadata_def)
        show ?case
        proof (cases "is_metadata x")
          case True
          from update_metadata_service_links [OF j assms(2,3) True] Cons.IH t True
          show ?thesis by (simp del: get_path.simps)
        next
          case False
          with Cons.IH t show ?thesis by (simp del: get_path.simps)
        qed
      qed
      with ys Some JList show ?thesis
        by (simp add: metadata_services_def del: get_path.simps)
    qed (use res Some in \<open>simp_all add: metadata_services_def\<close>)
  qed
qed

lemma loop_services_Some:
  "(\<And>j s. s \<in> set xs \<Longrightarrow> \<exists>s'. f j s = Some s') \<Longrightarrow> \<exists>ys. loop_services f i xs = Some ys"
proof (induction xs arbitrary: i)
  case Nil
  then show ?case by simp
next
  case (Cons x xs)
  from Cons.prems [of x i] obtain x' where "f i x = Some x'" by auto
  moreover from Cons.IH [of "i + 1"] Cons.prems obtain ys where
    "loop_services f (i + 1) xs = Some ys" by auto
  ultimately show ?case by simp
qed

lemma update_links_Some:
  assumes "getitem data ''links'' = Some (JList links)" "list_all has_link_keys links"
    and "has_additional_information s"
  shows "\<exists>s'. update_links data s = Some s'"
proof -
  from assms(3) obtain d where
    d: "get_path s [''attributes'', ''additionalInformation''] = Some d" "is_dict d"
    by (auto simp: has_additional_information_def simp del: get_path.simps split: option.splits)
  from set_path_Some [OF d, of "''links''"]
  have "\<exists>s'. set_path s [''attributes'', ''additionalInformation'', ''links''] v = Some s'" for v
    by simp
  then show ?thesis
    using assms(1) new_links_filter [OF assms(2)]
    by (simp add: update_links_def del: set_path.simps)
qed

lemma update_metadata_service_Some:
  assumes "getitem data ''links'' = Some (JList links)" "list_all has_link_keys links"
    and "getitem data ''title'' = None" "getitem data ''description'' = None"
    and "getitem data ''servicePrices'' = None"
    and "has_type s" "is_metadata s \<longrightarrow> has_additional_information s"
  shows "\<exists>s'. update_metadata_service data j s = Some s'"
proof (cases "is_metadata s")
  case True
  with assms(7) update_links_Some [OF assms(1,2)] obtain s1 where "update_links data s = Some s1"
    by blast
  with True assms(3-6) show ?thesis
    by (simp add: update_metadata_service_def type_is_metadata_eq update_title_def
        update_description_def service_prices_def)
next
  case False
  with assms(5,6) show ?thesis
    by (simp add: update_metadata_service_def type_is_metadata_eq service_prices_def)
qed

lemma for_each_service_Some:
  assumes "getitem data ''links'' = Some (JList links)" "list_all has_link_keys links"
    and "getitem data ''title'' = None" "getitem data ''description'' = None"
    and "getitem data ''servicePrices'' = None"
    and "links_can_be_set doc"
    and "getitem r1 ''service'' = getitem doc ''service''" "is_dict r1"
  shows "\<exists>r2. for_each_service (update_metadata_service data) r1 = Some r2"
proof -
  from assms(6) obtain services where
    s: "getitem doc ''service'' = Some (JList services)" and t: "list_all has_type services"
    and a: "list_all has_additional_information (filter is_metadata services)"
    by (auto simp: links_can_be_set_def split: option.splits json.splits)
  have "\<exists>s'. update_metadata_service data j x = Some s'" if "x \<in> set services" for j x
    using that t a
    by (intro update_metadata_service_Some [OF assms(1-5)]) (auto simp: list_all_iff)
  from loop_services_Some [of services "update_metadata_service data" 0, OF this]
  obtain ys where ys: "loop_services (update_metadata_service data) 0 services = Some ys"
    by blast
  from setitem_dict [OF assms(8)] obtain r2 where "setitem r1 ''service'' (JList ys) = Some r2"
    by blast
  with s ys assms(7) show ?thesis
    by (simp add: for_each_service_def py_iter_def rebuild_def)
qed

text \<open>
  Claim C4. The claim asks that a PartialMetadataUpdate drops a supplied link entry that
  lacks a string-typed \<open>name\<close>, \<open>url\<close> or \<open>type\<close>, stores the well-formed entries and
  succeeds; on \<open>links = [{name: x, url: http://a, type: sample}, {name: bad}]\<close> the
  stored links are to be the first entry alone. The loop of \<open>update_metadata\<close> does drop
  an entry whose values are no strings, but it reads \<open>link['url']\<close> and \<open>link['type']\<close>
  without asking whether the keys are there. On the payload of the example, sent by the
  owner, the second entry has a string \<open>name\<close> and no \<open>url\<close>: the read raises
  \<open>KeyError\<close>, the handler answers 500, and the stored links are the ones from before the
  request, not the first entry of the payload.
\<close>

theorem partial_update_link_without_url_fails:
  "authorized_as_owner example_env example_db example_did example_links_payload
   \<and> fst (update_metadata example_env example_did example_links_payload example_db)
       = Return SomeError 500
   \<and> stored_links (snd (update_metadata example_env example_did example_links_payload example_db))
         example_did
       = [Some (JList [JObj [(''name'', JStr ''Sample of Asset Data''), (''type'', JStr ''sample''),
                              (''url'', JStr ''https://foo.com/sample.csv'')]])]"
  by (simp add: stored_links_def metadata_services_def example_links_payload_def example_defs
      value_defs helper_defs handler_defs)

lemma partial_update_links_parts:
  assumes "authorized_as_owner env db did data"
    and "getitem data ''links'' = Some (JList links)"
    and "list_all has_link_keys links"
    and "update_metadata env did data db = (out, db')"
  shows "new_links links = Some (filter well_formed_link links)"
    and "(out = Return SomeError 500 \<and> db' = db)
       \<or> (out = Return (Text ''Metadata successfully updated'') 200
          \<and> (filter well_formed_link links \<noteq> [] \<longrightarrow>
                (\<forall>l \<in> set (stored_links db' did). l = Some (JList (filter well_formed_link links))))
          \<and> (filter well_formed_link links = [] \<longrightarrow> stored_links db' did = stored_links db did))"
    and "getitem data ''title'' = None \<and> getitem data ''description'' = None
         \<and> getitem data ''servicePrices'' = None
         \<and> (\<exists>doc. dao_get db did = Some doc \<and> links_can_be_set doc)
         \<longrightarrow> out = Return (Text ''Metadata successfully updated'') 200"
proof -
  let ?kept = "filter well_formed_link links"
  let ?g = "\<lambda>m. get_path m [''attributes'', ''additionalInformation'', ''links'']"
  show kept: "new_links links = Some ?kept"
    using assms(3) by (rule new_links_filter)
  from update_metadata_authorized [OF assms(1)] assms(4) obtain doc where
    doc: "dao_get db did = Some doc"
    and run: "(out, db') =
       (case Option.bind (setitem doc ''updated'' (get_timestamp env))
               (for_each_service (update_metadata_service data)) of
          None \<Rightarrow> (Return SomeError 500, db)
        | Some r2 \<Rightarrow> (Return (Text ''Metadata successfully updated'') 200, db(JStr did \<mapsto> r2)))"
    by auto
  show "(out = Return SomeError 500 \<and> db' = db)
       \<or> (out = Return (Text ''Metadata successfully updated'') 200
          \<and> (?kept \<noteq> [] \<longrightarrow> (\<forall>l \<in> set (stored_links db' did). l = Some (JList ?kept)))
          \<and> (?kept = [] \<longrightarrow> stored_links db' did = stored_links db did))"
  proof (cases "Option.bind (setitem doc ''updated'' (get_timestamp env))
                  (for_each_service (update_metadata_service data))")
    case None
    with run show ?thesis by simp
  next
    case (Some r2)
    then obtain r1 where r1: "setitem doc ''updated'' (get_timestamp env) = Some r1"
      and r2: "for_each_service (update_metadata_service data) r1 = Some r2"
      by (auto simp: bind_eq_Some_conv)
    from r1 have "getitem r1 ''service'' = getitem doc ''service''"
      by (simp add: getitem_setitem_neq)
    then have same: "metadata_services r1 = metadata_services doc"
      by (rule metadata_services_cong)
    from stored_links_after [OF r2 assms(2) kept] same
    have "map ?g (metadata_services r2)
            = map (\<lambda>m. if ?kept \<noteq> [] then Some (JList ?kept) else ?g m) (metadata_services doc)"
      by simp
    moreover from run Some have "out = Return (Text ''Metadata successfully updated'') 200"
      and "db' = db(JStr did \<mapsto> r2)" by simp_all
    ultimately show ?thesis
      using doc by (auto simp: stored_links_def dao_get_def simp del: get_path.simps)
  qed
  show "getitem data ''title'' = None \<and> getitem data ''description'' = None
         \<and> getitem data ''servicePrices'' = None
         \<and> (\<exists>doc. dao_get db did = Some doc \<and> links_can_be_set doc)
         \<longrightarrow> out = Return (Text ''Metadata successfully updated'') 200"
  proof (intro impI, elim conjE)
    assume absent: "getitem data ''title'' = None" "getitem data ''description'' = None"
      "getitem data ''servicePrices'' = None"
      and "\<exists>doc. dao_get db did = Some doc \<and> links_can_be_set doc"
    with doc have shape: "links_can_be_set doc" by simp
    then have "is_dict doc"
      by (auto simp: links_can_be_set_def dest: getitem_Some_is_dict split: option.splits)
    then obtain r1 where r1: "setitem doc ''updated'' (get_timestamp env) = Some r1"
      using setitem_dict by blast
    then have "getitem r1 ''service'' = getitem doc ''service''" "is_dict r1"
      by (auto simp: getitem_setitem_neq setitem_def is_dict_def split: json.splits)
    from for_each_service_Some [OF assms(2,3) absent shape this] obtain r2 where
      "for_each_service (update_metadata_service data) r1 = Some r2" by blast
    with run r1 show "out = Return (Text ''Metadata successfully updated'') 200" by simp
  qed
qed

text \<open>
  What the loop does get right. Take a PartialMetadataUpdate that is authorized as owner
  and whose payload supplies a \<open>links\<close> list in which every entry has the keys \<open>name\<close>,
  \<open>url\<close> and \<open>type\<close>. The entries whose three values are strings are kept, the others
  are dropped silently. The request answers 200 or, when a write into the stored document
  raises, 500 without a change of the store. On 200 the links of every metadata service
  of the stored document are the kept entries when there is one, and are left as they
  were when all entries were dropped. The request answers 200 when the payload supplies
  neither \<open>title\<close>, \<open>description\<close> nor \<open>servicePrices\<close> and the stored document has a
  list of typed services with an object at \<open>attributes.additionalInformation\<close> of each
  metadata service.
\<close>

lemma partial_update_links_with_all_keys:
  assumes "authorized_as_owner env db did data"
    and "getitem data ''links'' = Some (JList links)"
    and "list_all has_link_keys links"
    and "update_metadata env did data db = (out, db')"
  shows "new_links links = Some (filter well_formed_link links)
     \<and> ((out = Return SomeError 500 \<and> db' = db)
       \<or> (out = Return (Text ''Metadata successfully updated'') 200
          \<and> (filter well_formed_link links \<noteq> [] \<longrightarrow>
                (\<forall>l \<in> set (stored_links db' did). l = Some (JList (filter well_formed_link links))))
          \<and> (filter well_formed_link links = [] \<longrightarrow> stored_links db' did = stored_links db did)))
     \<and> (getitem data ''title'' = None \<and> getitem data ''description'' = None
         \<and> getitem data ''servicePrices'' = None
         \<and> (\<exists>doc. dao_get db did = Some doc \<and> links_can_be_set doc)
         \<longrightarrow> out = Return (Text ''Metadata successfully updated'') 200)"
  using partial_update_links_parts [OF assms] by blast

lemma partial_update_links_with_all_keys_example:
  "authorized_as_owner example_env example_db example_did example_typed_links_payload
   \<and> fst (update_metadata example_env example_did example_typed_links_payload example_db)
       = Return (Text ''Metadata successfully updated'') 200
   \<and> stored_links
         (snd (update_metadata example_env example_did example_typed_links_payload example_db))
         example_did
       = [Some (JList [JObj [(''name'', JStr ''x''), (''url'', JStr ''http://a''),
                             (''type'', JStr ''sample'')]])]"
proof -
  let ?data = example_typed_links_payload
  let ?good = "JObj [(''name'', JStr ''x''), (''url'', JStr ''http://a''), (''type'', JStr ''sample'')]"
  let ?bad = "JObj [(''name'', JStr ''bad''), (''url'', JInt 5), (''type'', JNull)]"
  let ?run = "update_metadata example_env example_did ?data example_db"
  have auth: "authorized_as_owner example_env example_db example_did ?data"
    by (simp add: example_typed_links_payload_def example_defs value_defs helper_defs)
  have links: "getitem ?data ''links'' = Some (JList [?good, ?bad])"
    by (simp add: example_typed_links_payload_def signed_by_def getitem_def)
  have keys: "list_all has_link_keys [?good, ?bad]"
    by (simp add: has_link_keys_def getitem_def)
  have kept: "filter well_formed_link [?good, ?bad] = [?good]"
    by (simp add: well_formed_link_def is_str_at_def getitem_def is_str_def)
  have run: "?run = (fst ?run, snd ?run)" by simp
  have absent: "getitem ?data ''title'' = None" "getitem ?data ''description'' = None"
    "getitem ?data ''servicePrices'' = None"
    by (simp_all add: example_typed_links_payload_def signed_by_def getitem_def)
  have shape: "dao_get example_db example_did = Some example_ddo \<and> links_can_be_set example_ddo"
    by (simp add: links_can_be_set_def has_additional_information_def example_defs value_defs
        helper_defs)
  have one: "length (stored_links (snd ?run) example_did) = 1"
    by (simp add: stored_links_def metadata_services_def example_typed_links_payload_def
        example_defs value_defs helper_defs handler_defs)
  note effect = partial_update_links_with_all_keys [OF auth links keys run]
  from effect absent shape have ok: "fst ?run = Return (Text ''Metadata successfully updated'') 200"
    by blast
  with effect kept have "\<forall>l \<in> set (stored_links (snd ?run) example_did). l = Some (JList [?good])"
    by simp
  with one have "stored_links (snd ?run) example_did = [Some (JList [?good])]"
    by (rule singleton_list)
  with auth ok show ?thesis by simp
qed

end
